theory Spec2Isabelle
  imports Main "HOL-Library.Sublist" "HOL-Library.Code_Target_Numeral"
begin

section \<open>JavaScript strings and numbers used by console.js\<close>

text \<open>
  Strings are lists of code units; the model has the code units below 256.
  \<open>split_on c s\<close> is \<^verbatim>\<open>s.split(c)\<close> for a one-character separator: it never returns the
  empty array, and \<^verbatim>\<open>"".split(c)\<close> is \<^verbatim>\<open>[""]\<close>.
\<close>

fun split_on :: "char \<Rightarrow> string \<Rightarrow> string list" where
  "split_on c [] = [[]]"
| "split_on c (x # xs) =
     (if x = c then [] # split_on c xs
      else (case split_on c xs of
              [] \<Rightarrow> [[x]]
            | p # ps \<Rightarrow> (x # p) # ps))"

text \<open>\<^verbatim>\<open>parts.join(c)\<close>.\<close>

fun join_with :: "char \<Rightarrow> string list \<Rightarrow> string" where
  "join_with c [] = []"
| "join_with c [p] = p"
| "join_with c (p # q # ps) = p @ c # join_with c (q # ps)"

definition is_digit :: "char \<Rightarrow> bool" where
  "is_digit c = (c \<in> set ''0123456789'')"

text \<open>
  The white space that \<^verbatim>\<open>trim\<close> and \<^verbatim>\<open>parseInt\<close> skip: the \<^verbatim>\<open>WhiteSpace\<close> and
  \<^verbatim>\<open>LineTerminator\<close> code units. Among the code units below 256 these are tab, line feed,
  vertical tab, form feed, carriage return, space and the no-break space U+00A0.
\<close>

definition is_space :: "char \<Rightarrow> bool" where
  "is_space c = (c \<in> set [CHR '' '', CHR 0x09, CHR 0x0A, CHR 0x0B, CHR 0x0C, CHR 0x0D, CHR 0xA0])"

definition trim :: "string \<Rightarrow> string" where
  "trim s = rev (dropWhile is_space (rev (dropWhile is_space s)))"

definition digit_val :: "char \<Rightarrow> nat" where
  "digit_val c = of_char c - 48"

definition digit_char :: "nat \<Rightarrow> char" where
  "digit_char d = ''0123456789'' ! d"

text \<open>\<^verbatim>\<open>String(n)\<close> for a non-negative integer \<open>n\<close>: its decimal numeral.\<close>

fun string_of_nat :: "nat \<Rightarrow> string" where
  "string_of_nat n =
     (if n < 10 then [digit_char n]
      else string_of_nat (n div 10) @ [digit_char (n mod 10)])"

declare string_of_nat.simps [simp del]

text \<open>\<^verbatim>\<open>String(i)\<close> for an integer.\<close>

definition string_of_int :: "int \<Rightarrow> string" where
  "string_of_int i =
     (if i < 0 then CHR ''-'' # string_of_nat (nat (- i)) else string_of_nat (nat i))"

definition nat_of_digits :: "string \<Rightarrow> nat" where
  "nat_of_digits ds = foldl (\<lambda>a c. 10 * a + digit_val c) 0 ds"

text \<open>
  The values of \<^verbatim>\<open>parseInt\<close> other than \<^verbatim>\<open>NaN\<close>: an integer that a double holds exactly,
  or an infinity. (\<^verbatim>\<open>-0\<close> is \<open>Fin 0\<close>: a \<^verbatim>\<open>Map\<close> and a \<^verbatim>\<open>Set\<close> do not tell it from \<^verbatim>\<open>0\<close>.)
\<close>

datatype number = Fin int | PlusInfinity | MinusInfinity

text \<open>The number of binary digits of \<open>n\<close>.\<close>

fun bit_length :: "nat \<Rightarrow> nat" where
  "bit_length n = (if n = 0 then 0 else Suc (bit_length (n div 2)))"

declare bit_length.simps [simp del]

text \<open>
  The Number value of the integer \<open>n\<close>, negated when \<open>neg\<close>: \<open>n\<close> itself below \<open>2^53\<close>;
  above, \<open>n\<close> rounded to 53 significant binary digits, to the nearest and in a tie to the
  even one; an infinity when the rounded value needs more than 1024 binary digits.
\<close>

definition to_number :: "bool \<Rightarrow> nat \<Rightarrow> number" where
  "to_number neg n =
     (if n < 9007199254740992 then Fin (if neg then - int n else int n)
      else (let e = bit_length n - 53;
                q = n div 2 ^ e;
                r = n mod 2 ^ e;
                m = (if 2 * r > 2 ^ e \<or> (2 * r = 2 ^ e \<and> odd q) then q + 1 else q)
            in if bit_length (m * 2 ^ e) > 1024
               then (if neg then MinusInfinity else PlusInfinity)
               else Fin (if neg then - int (m * 2 ^ e) else int (m * 2 ^ e))))"

text \<open>
  \<^verbatim>\<open>parseInt(s, 10)\<close>: skip leading white space, read an optional sign, then the longest
  run of decimal digits; \<open>None\<close> is \<^verbatim>\<open>NaN\<close> (no digit there). The result is the Number
  value of the integer the digits denote.
\<close>

definition parseInt10 :: "string \<Rightarrow> number option" where
  "parseInt10 s =
     (let t = dropWhile is_space s;
          neg = (case t of [] \<Rightarrow> False | c # _ \<Rightarrow> c = CHR ''-'');
          u = (case t of [] \<Rightarrow> [] | c # r \<Rightarrow> if c = CHR ''-'' \<or> c = CHR ''+'' then r else t);
          ds = takeWhile is_digit u
      in if ds = [] then None else Some (to_number neg (nat_of_digits ds)))"


section \<open>Allocator\<close>

text \<open>
  \<^verbatim>\<open>allocateIps(existingIps, count)\<close>, console.js lines 218-225. \<open>base\<close> is the module
  constant \<^verbatim>\<open>NETWORK.base\<close> (for instance \<^verbatim>\<open>172.28.0.\<close>), read from the network script at
  start-up. The set \<^verbatim>\<open>used\<close> holds the last dot-separated segment of every existing
  address; the loop runs \<open>i\<close> from 2 while \<open>i < 255\<close> and fewer than \<open>count\<close> addresses
  were collected.
\<close>

definition last_segment :: "string \<Rightarrow> string" where
  "last_segment ip = last (split_on CHR ''.'' ip)"

function allocate_loop :: "string \<Rightarrow> string list \<Rightarrow> nat \<Rightarrow> nat \<Rightarrow> string list \<Rightarrow> string list" where
  "allocate_loop base used n i ips =
     (if i < 255 \<and> length ips < n
      then allocate_loop base used n (i + 1)
             (if string_of_nat i \<notin> set used then ips @ [base @ string_of_nat i] else ips)
      else ips)"
  by pat_completeness auto
termination
  by (relation "measure (\<lambda>(base, used, n, i, ips). 255 - i)") auto

declare allocate_loop.simps [simp del]

definition allocateIps :: "string \<Rightarrow> string list \<Rightarrow> nat \<Rightarrow> string list" where
  "allocateIps base existingIps n = allocate_loop base (map last_segment existingIps) n 2 []"

text \<open>
  The reconciler's call \<^verbatim>\<open>allocateIps(Object.keys(usedIpCounts), 1)[0]\<close> (lines 363, 385,
  399): the first element, or \<^verbatim>\<open>undefined\<close> (\<open>None\<close>) when the array is empty.
\<close>

definition nextIpv4 :: "string \<Rightarrow> string list \<Rightarrow> string option" where
  "nextIpv4 base used = (case allocateIps base used 1 of [] \<Rightarrow> None | ip # _ \<Rightarrow> Some ip)"

text \<open>An octet \<open>i\<close> is free when no existing address ends in the segment \<open>String(i)\<close>.\<close>

definition octet_free :: "string list \<Rightarrow> nat \<Rightarrow> bool" where
  "octet_free existingIps i = (string_of_nat i \<notin> last_segment ` set existingIps)"

section \<open>Compose manifests\<close>

text \<open>
  The tree that \<^verbatim>\<open>YAML.parse\<close> returns, restricted to the shapes of the compose format.
  A port entry is a string (short syntax), a number, or a mapping (long syntax). A
  service network entry is a string, \<^verbatim>\<open>null\<close>, or a mapping with the optional keys
  \<^verbatim>\<open>ipv4_address\<close> and \<^verbatim>\<open>ipv4Address\<close>. JavaScript objects keep their keys in insertion
  order, so they are association lists. The fields \<open>net_rest\<close>, \<open>svc_rest\<close> and \<open>m_rest\<close>
  stand for all keys the reconciler never looks at; it carries them along unchanged.
  A manifest without a \<^verbatim>\<open>services\<close> key is read as one with no services
  (\<^verbatim>\<open>obj.services || {}\<close>). Services are mappings, and no two keys of the tree share one
  object (no YAML alias).
\<close>

datatype scalar = SStr string | SNum nat

datatype port_entry = PStr string | PNum nat | PObj "(string \<times> scalar) list"

datatype net_entry =
    NetStr string
  | NetNull
  | NetObj (ipv4_address: "string option") (ipv4Address: "string option") (net_rest: string)

record service =
  ports :: "port_entry list option"
  networks :: "(string \<times> net_entry) list option"
  svc_ipv4_address :: "string option"
  svc_ipv4Address :: "string option"
  svc_rest :: string

datatype topnet = TopNull | TopExternal "string option" | TopOther string

record manifest =
  services :: "(string \<times> service) list"
  top_networks :: "(string \<times> topnet) list option"
  m_rest :: string

datatype error = ReferenceError string | IOError string

text \<open>Truthiness of an optional string field: present and not the empty string.\<close>

definition truthy :: "string option \<Rightarrow> bool" where
  "truthy v = (case v of None \<Rightarrow> False | Some s \<Rightarrow> s \<noteq> [])"

text \<open>\<^verbatim>\<open>o[k] = v\<close> on an object: an existing key keeps its place, a new key goes last.\<close>

fun obj_set :: "'k \<Rightarrow> 'v \<Rightarrow> ('k \<times> 'v) list \<Rightarrow> ('k \<times> 'v) list" where
  "obj_set k v [] = [(k, v)]"
| "obj_set k v ((k', v') # kvs) =
     (if k' = k then (k, v) # kvs else (k', v') # obj_set k v kvs)"

section \<open>Reconciler: pass one, the census\<close>

text \<open>
  The three accumulators of \<^verbatim>\<open>scanAndFix\<close> (lines 234-236): \<^verbatim>\<open>usedHostCounts\<close> is only
  ever read at a key, \<^verbatim>\<open>usedHostSet\<close> is a finite set, and \<^verbatim>\<open>usedIpCounts\<close> is also
  enumerated (\<^verbatim>\<open>Object.keys\<close>), so it is an association list.
\<close>

record census =
  usedHostCounts :: "number \<Rightarrow> nat"
  usedHostSet :: "number list"
  usedIpCounts :: "(string \<times> nat) list"

definition empty_census :: census where
  "empty_census = \<lparr>usedHostCounts = (\<lambda>_. 0), usedHostSet = [], usedIpCounts = []\<rparr>"

text \<open>\<^verbatim>\<open>usedIpCounts[k] || 0\<close> and \<^verbatim>\<open>usedIpCounts[k] = (usedIpCounts[k] || 0) + 1\<close>.\<close>

definition ip_count :: "(string \<times> nat) list \<Rightarrow> string \<Rightarrow> nat" where
  "ip_count c k = (case map_of c k of None \<Rightarrow> 0 | Some n \<Rightarrow> n)"

definition ip_bump :: "string \<Rightarrow> (string \<times> nat) list \<Rightarrow> (string \<times> nat) list" where
  "ip_bump k c = obj_set k (ip_count c k + 1) c"

definition bump_if :: "string option \<Rightarrow> census \<Rightarrow> census" where
  "bump_if v c = (if truthy v then c\<lparr>usedIpCounts := ip_bump (the v) (usedIpCounts c)\<rparr> else c)"

text \<open>\<^verbatim>\<open>String(p)\<close> for a port entry.\<close>

definition to_String :: "port_entry \<Rightarrow> string" where
  "to_String p = (case p of PStr s \<Rightarrow> s | PNum n \<Rightarrow> string_of_nat n | PObj _ \<Rightarrow> ''[object Object]'')"

text \<open>
  Lines 254-255: the census reads the second of three parts as the host port, and the
  first part in every other case, also when the entry has one part only.
\<close>

definition census_host :: "port_entry \<Rightarrow> number option" where
  "census_host p =
     (let parts = split_on CHR '':'' (to_String p)
      in if length parts = 3 then parseInt10 (parts ! 1) else parseInt10 (parts ! 0))"

definition census_port :: "port_entry \<Rightarrow> census \<Rightarrow> census" where
  "census_port p c =
     (case census_host p of
        None \<Rightarrow> c
      | Some host \<Rightarrow> c\<lparr>usedHostCounts := (usedHostCounts c)(host := usedHostCounts c host + 1),
                      usedHostSet := host # usedHostSet c\<rparr>)"

text \<open>Lines 273-274 and 277-278: the service-level address keys.\<close>

definition census_svc_level :: "service \<Rightarrow> census \<Rightarrow> census" where
  "census_svc_level svc c = bump_if (svc_ipv4Address svc) (bump_if (svc_ipv4_address svc) c)"

text \<open>
  Lines 263-275, one entry of \<^verbatim>\<open>svc.networks\<close> at a time (an object has each key once).
  A mapping counts its truthy \<^verbatim>\<open>ipv4_address\<close>, then its truthy \<^verbatim>\<open>ipv4Address\<close>; the
  service-level keys are counted once more for every network. For a string entry the code
  calls \<^verbatim>\<open>isIpv4\<close>, and no binding of that name is in scope in \<^verbatim>\<open>scanAndFix\<close>: console.js
  imports none and declares none at module level (the only \<^verbatim>\<open>const isIpv4\<close>, line 2061, is
  local to a block of the WebSocket handler), so the call throws a ReferenceError. What
  was counted before stays counted.
\<close>

fun census_nets :: "service \<Rightarrow> (string \<times> net_entry) list \<Rightarrow> census \<Rightarrow> error option \<times> census" where
  "census_nets svc [] c = (None, c)"
| "census_nets svc ((netName, net) # rest) c =
     (case net of
        NetStr s \<Rightarrow> (Some (ReferenceError ''isIpv4''), c)
      | NetNull \<Rightarrow> census_nets svc rest (census_svc_level svc c)
      | NetObj a b r \<Rightarrow>
          census_nets svc rest (census_svc_level svc (bump_if b (bump_if a c))))"

definition census_service :: "service \<Rightarrow> census \<Rightarrow> error option \<times> census" where
  "census_service svc c =
     (let c1 = (case ports svc of None \<Rightarrow> c | Some ps \<Rightarrow> fold census_port ps c)
      in case networks svc of
           None \<Rightarrow> (None, census_svc_level svc c1)
         | Some nets \<Rightarrow>
             (case census_nets svc nets c1 of
                (Some e, c2) \<Rightarrow> (Some e, c2)
              | (None, c2) \<Rightarrow> (None, census_svc_level svc c2)))"

fun census_services :: "(string \<times> service) list \<Rightarrow> census \<Rightarrow> error option \<times> census" where
  "census_services [] c = (None, c)"
| "census_services ((name, svc) # rest) c =
     (case census_service svc c of
        (Some e, c1) \<Rightarrow> (Some e, c1)
      | (None, c1) \<Rightarrow> census_services rest c1)"

text \<open>\<^verbatim>\<open>Array.from(usedNets)\<close>: the network names the services refer to, first mention first.\<close>

definition usedNets_of :: "(string \<times> service) list \<Rightarrow> string list" where
  "usedNets_of svcs =
     rev (remdups (rev (concat (map (\<lambda>(name, svc). case networks svc of None \<Rightarrow> [] | Some nets \<Rightarrow> map fst nets) svcs))))"

record item =
  dir :: string
  yml_file :: string
  obj :: manifest
  usedNets :: "string list"

section \<open>Reconciler: pass two, fix\<close>

text \<open>
  \<^verbatim>\<open>let probe = 10000; while (usedHostSet.has(probe)) probe++;\<close> The set is finite, so
  the loop ends. The increment is exact below \<open>2^53\<close>, which a probe could only reach past a
  set of more than \<open>2^53 - 10000\<close> ports.
\<close>

function probe_free :: "number list \<Rightarrow> int \<Rightarrow> int" where
  "probe_free used probe = (if Fin probe \<in> set used then probe_free used (probe + 1) else probe)"
  by pat_completeness auto
termination
proof (relation "measure (\<lambda>(used, probe). card {x. Fin x \<in> set used \<and> probe \<le> x})")
  show "wf (measure (\<lambda>(used, probe). card {x. Fin x \<in> set used \<and> probe \<le> x}))" by simp
next
  fix used :: "number list" and probe :: int
  assume m: "Fin probe \<in> set used"
  have "finite (Fin -` set used)" by (rule finite_vimageI) (simp_all add: inj_on_def)
  then have fin: "finite {x. Fin x \<in> set used \<and> probe \<le> x}"
    by (rule rev_finite_subset) auto
  have "probe \<in> {x. Fin x \<in> set used \<and> probe \<le> x}"
    and "probe \<notin> {x. Fin x \<in> set used \<and> probe + 1 \<le> x}"
    using m by simp_all
  moreover have "{x. Fin x \<in> set used \<and> probe + 1 \<le> x} \<subseteq> {x. Fin x \<in> set used \<and> probe \<le> x}"
    by auto
  ultimately have "{x. Fin x \<in> set used \<and> probe + 1 \<le> x} \<subset> {x. Fin x \<in> set used \<and> probe \<le> x}"
    by blast
  then have "card {x. Fin x \<in> set used \<and> probe + 1 \<le> x} < card {x. Fin x \<in> set used \<and> probe \<le> x}"
    using fin by (rule psubset_card_mono [rotated])
  then show "((used, probe + 1), (used, probe))
      \<in> measure (\<lambda>(used, probe). card {x. Fin x \<in> set used \<and> probe \<le> x})"
    by simp
qed

declare probe_free.simps [simp del]

text \<open>
  One mapping with the host port \<open>hostPort\<close> (lines 316-326 and 329-338): \<open>rebuild\<close>
  prints the entry around the new host port.
\<close>

definition reassign :: "census \<Rightarrow> string \<Rightarrow> number option \<Rightarrow> (int \<Rightarrow> string) \<Rightarrow> string \<times> census" where
  "reassign c original hostPort rebuild =
     (case hostPort of
        None \<Rightarrow> (original, c)
      | Some h \<Rightarrow>
          if usedHostCounts c h > 1
          then (let newHost = probe_free (usedHostSet c) 10000
                in (rebuild newHost,
                    c\<lparr>usedHostSet := Fin newHost # usedHostSet c,
                      usedHostCounts := (usedHostCounts c)
                        (h := (if usedHostCounts c h = 0 then 1 else usedHostCounts c h) - 1)\<rparr>))
          else (original, c))"

definition fix_port :: "census \<Rightarrow> port_entry \<Rightarrow> string \<times> census" where
  "fix_port c p =
     (case p of
        PStr original \<Rightarrow>
          (let parts = split_on CHR '':'' original
           in if length parts = 3
              then reassign c original (parseInt10 (parts ! 1))
                     (\<lambda>newHost. parts ! 0 @ '':'' @ string_of_int newHost @ '':'' @ parts ! 2)
              else if length parts = 2
              then reassign c original (parseInt10 (parts ! 0))
                     (\<lambda>newHost. string_of_int newHost @ '':'' @ parts ! 1)
              else (original, c))
      | _ \<Rightarrow> (to_String p, c))"

fun fix_ports :: "census \<Rightarrow> port_entry list \<Rightarrow> string list \<times> census" where
  "fix_ports c [] = ([], c)"
| "fix_ports c (p # ps) =
     (let (p', c1) = fix_port c p; (ps', c2) = fix_ports c1 ps in (p' # ps', c2))"

text \<open>\<^verbatim>\<open>svc.networks[netName]\<close> and \<^verbatim>\<open>svc.networks[netName] = v\<close>.\<close>

definition net_get :: "service \<Rightarrow> string \<Rightarrow> net_entry option" where
  "net_get svc netName = (case networks svc of None \<Rightarrow> None | Some nets \<Rightarrow> map_of nets netName)"

definition net_set :: "string \<Rightarrow> net_entry \<Rightarrow> service \<Rightarrow> service" where
  "net_set netName v svc =
     svc\<lparr>networks := Some (obj_set netName v (case networks svc of None \<Rightarrow> [] | Some nets \<Rightarrow> nets))\<rparr>"

text \<open>
  Lines 355-414, one step per network name. The state is the service being fixed, its
  copy for the mapper (\<^verbatim>\<open>serviceMapper[name]\<close>) and \<^verbatim>\<open>usedIpCounts\<close>. A string entry
  calls the unbound \<^verbatim>\<open>isIpv4\<close> again (line 360). In the \<^verbatim>\<open>ipv4Address\<close> branch the
  mapper copy is replaced by a fresh copy of the service (line 412).
\<close>

fun fix_nets ::
  "string \<Rightarrow> string list \<Rightarrow> service \<times> service \<times> (string \<times> nat) list
     \<Rightarrow> error + (service \<times> service \<times> (string \<times> nat) list)" where
  "fix_nets base [] st = Inr st"
| "fix_nets base (netName # rest) (svc, sm, c) =
     (case net_get svc netName of
        None \<Rightarrow> fix_nets base rest (svc, sm, c)
      | Some (NetStr s) \<Rightarrow> Inl (ReferenceError ''isIpv4'')
      | Some NetNull \<Rightarrow> fix_nets base rest (svc, sm, c)
      | Some (NetObj a b r) \<Rightarrow>
          if truthy a then
            (if ip_count c (the a) > 1 then
               (case nextIpv4 base (map fst c) of
                  None \<Rightarrow> fix_nets base rest (svc, sm, c)
                | Some newIp \<Rightarrow>
                    fix_nets base rest
                      (net_set netName (NetObj (Some newIp) b r) svc,
                       net_set netName (NetStr newIp) sm,
                       ip_bump newIp c))
             else fix_nets base rest (svc, net_set netName (NetStr (the a)) sm, c))
          else if truthy b then
            (if ip_count c (the b) > 1 then
               (case nextIpv4 base (map fst c) of
                  None \<Rightarrow> fix_nets base rest (svc, svc, c)
                | Some newIp \<Rightarrow>
                    fix_nets base rest
                      (net_set netName (NetObj a (Some newIp) r) svc,
                       net_set netName (NetObj a (Some newIp) r) svc,
                       ip_bump newIp c))
             else fix_nets base rest (svc, svc, c))
          else fix_nets base rest (svc, sm, c))"

text \<open>
  Lines 295-416 for one service: the mapper copy starts as a copy of the service with
  \<^verbatim>\<open>ports\<close> defaulted to the empty array; the ports are fixed and written back as
  strings; then the networks.
\<close>

definition fix_service :: "string \<Rightarrow> census \<Rightarrow> service \<Rightarrow> error + (service \<times> service \<times> census)" where
  "fix_service base c svc =
     (let sm0 = svc\<lparr>ports := Some (case ports svc of None \<Rightarrow> [] | Some ps \<Rightarrow> ps)\<rparr>;
          (svc1, sm1, c1) =
            (case ports svc of
               None \<Rightarrow> (svc, sm0, c)
             | Some ps \<Rightarrow>
                 (let (newPorts, c') = fix_ports c ps
                  in (svc\<lparr>ports := Some (map PStr newPorts)\<rparr>,
                      sm0\<lparr>ports := Some (map PStr newPorts)\<rparr>, c')))
      in case networks svc1 of
           None \<Rightarrow> Inr (svc1, sm1, c1)
         | Some nets \<Rightarrow>
             (case fix_nets base (map fst nets) (svc1, sm1, usedIpCounts c1) of
                Inl e \<Rightarrow> Inl e
              | Inr (svc2, sm2, ipc) \<Rightarrow> Inr (svc2, sm2, c1\<lparr>usedIpCounts := ipc\<rparr>)))"

fun fix_services ::
  "string \<Rightarrow> census \<Rightarrow> (string \<times> service) list
     \<Rightarrow> error + ((string \<times> service) list \<times> (string \<times> service) list \<times> census)" where
  "fix_services base c [] = Inr ([], [], c)"
| "fix_services base c ((name, svc) # rest) =
     (case fix_service base c svc of
        Inl e \<Rightarrow> Inl e
      | Inr (svc', sm, c1) \<Rightarrow>
          (case fix_services base c1 rest of
             Inl e \<Rightarrow> Inl e
           | Inr (svcs', sms, c2) \<Rightarrow> Inr ((name, svc') # svcs', (name, sm) # sms, c2)))"

text \<open>
  Lines 418-451, the top-level \<^verbatim>\<open>networks\<close> block: a missing block becomes the default
  network; every network a service refers to and whose entry is missing or \<^verbatim>\<open>null\<close> is
  added as external; every entry that no service refers to is deleted, the default network
  excepted; a block left empty is deleted.
\<close>

definition default_net :: string where
  "default_net = ''neuxbane-core-net''"

definition add_used_net :: "string \<Rightarrow> (string \<times> topnet) list \<Rightarrow> (string \<times> topnet) list" where
  "add_used_net netName nets =
     (case map_of nets netName of
        None \<Rightarrow> obj_set netName (TopExternal (Some netName)) nets
      | Some TopNull \<Rightarrow> obj_set netName (TopExternal (Some netName)) nets
      | Some _ \<Rightarrow> nets)"

definition fix_top_networks :: "string list \<Rightarrow> (string \<times> topnet) list option \<Rightarrow> (string \<times> topnet) list option" where
  "fix_top_networks used nets =
     (let n0 = (case nets of None \<Rightarrow> [(default_net, TopExternal None)] | Some n \<Rightarrow> n);
          n1 = fold add_used_net used n0;
          n2 = filter (\<lambda>(existing, v). existing \<in> set used \<or> existing = default_net) n1
      in if n2 = [] then None else Some n2)"

text \<open>Lines 290-451: one project of the second pass, before its file is written.\<close>

definition fix_item :: "string \<Rightarrow> census \<Rightarrow> item \<Rightarrow> error + (manifest \<times> (string \<times> service) list \<times> census)" where
  "fix_item base c it =
     (case fix_services base c (services (obj it)) of
        Inl e \<Rightarrow> Inl e
      | Inr (svcs', serviceMapper, c') \<Rightarrow>
          Inr ((obj it)\<lparr>services := svcs',
                         top_networks := fix_top_networks (usedNets it) (top_networks (obj it))\<rparr>,
               serviceMapper, c'))"

section \<open>Compose I/O\<close>

text \<open>
  Truthiness and \<^verbatim>\<open>toString\<close> of a scalar, and \<^verbatim>\<open>p.a || p.b || ...\<close>: the first truthy
  value among the named keys.
\<close>

definition scalar_truthy :: "scalar \<Rightarrow> bool" where
  "scalar_truthy v = (case v of SStr s \<Rightarrow> s \<noteq> [] | SNum n \<Rightarrow> n \<noteq> 0)"

definition scalar_to_string :: "scalar \<Rightarrow> string" where
  "scalar_to_string v = (case v of SStr s \<Rightarrow> s | SNum n \<Rightarrow> string_of_nat n)"

fun first_truthy :: "(string \<times> scalar) list \<Rightarrow> string list \<Rightarrow> scalar option" where
  "first_truthy p [] = None"
| "first_truthy p (k # ks) =
     (case map_of p k of
        Some v \<Rightarrow> if scalar_truthy v then Some v else first_truthy p ks
      | None \<Rightarrow> first_truthy p ks)"

text \<open>Lines 137-151: strings are kept, mappings are printed, anything else is dropped.\<close>

definition sanitize_port :: "port_entry \<Rightarrow> string option" where
  "sanitize_port p =
     (case p of
        PStr s \<Rightarrow> Some s
      | PNum n \<Rightarrow> None
      | PObj flds \<Rightarrow>
          (let container = (case first_truthy flds [''container'', ''target'', ''to'', ''published'', ''exposed''] of
                              None \<Rightarrow> [] | Some v \<Rightarrow> scalar_to_string v);
               host = first_truthy flds [''host'', ''published'', ''published_port''];
               bind = first_truthy flds [''bind'', ''address'']
           in if container \<noteq> []
              then (case (bind, host) of
                      (Some b, Some h) \<Rightarrow> Some (scalar_to_string b @ '':'' @ scalar_to_string h @ '':'' @ container)
                    | (None, Some h) \<Rightarrow> Some (scalar_to_string h @ '':'' @ container)
                    | (_, None) \<Rightarrow> Some container)
              else None))"

text \<open>The test \<^verbatim>\<open>/^\d+\.\d+\.\d+\.\d+$/\<close>: four non-empty runs of digits between dots.\<close>

definition ipv4_shaped :: "string \<Rightarrow> bool" where
  "ipv4_shaped s =
     (let parts = split_on CHR ''.'' s
      in length parts = 4 \<and> list_all (\<lambda>p. p \<noteq> [] \<and> list_all is_digit p) parts)"

definition sanitize_net :: "net_entry \<Rightarrow> net_entry" where
  "sanitize_net nv =
     (case nv of
        NetStr s \<Rightarrow> if trim s \<noteq> [] \<and> ipv4_shaped (trim s) then NetObj (Some (trim s)) None [] else nv
      | _ \<Rightarrow> nv)"

definition sanitize_service :: "service \<Rightarrow> service" where
  "sanitize_service svc =
     svc\<lparr>ports := map_option (\<lambda>ps. map PStr (List.map_filter sanitize_port ps)) (ports svc),
         networks := map_option (map (\<lambda>(nk, nv). (nk, sanitize_net nv))) (networks svc)\<rparr>"

definition sanitize :: "manifest \<Rightarrow> manifest" where
  "sanitize m = m\<lparr>services := map (\<lambda>(sname, svc). (sname, sanitize_service svc)) (services m)\<rparr>"

text \<open>
  The process environment. \<open>'txt\<close> is the type of file contents; \<^verbatim>\<open>YAML.parse\<close>,
  \<^verbatim>\<open>YAML.stringify\<close> and \<^verbatim>\<open>JSON.stringify(mapper, null, 2) + '\n'\<close> are library functions
  and parameters of the model (\<open>yaml_parse\<close> is \<open>None\<close> where the parser throws).
  \<open>project_dirs\<close> is the outcome of the directory walk \<^verbatim>\<open>findProjectDirs(WORKSPACE_ROOT)\<close>,
  which fails when the root cannot be read; \<open>unwritable\<close> holds the paths at which
  \<^verbatim>\<open>writeFileSync\<close> throws; \<open>locale_le a b\<close> is \<^verbatim>\<open>a.localeCompare(b) <= 0\<close>;
  \<open>network_subnet\<close> is the subnet that \<^verbatim>\<open>getNetworkConfig\<close> reads from the network script,
  or its default \<^verbatim>\<open>172.28.0.0/16\<close>.
\<close>

type_synonym mapper = "(string \<times> string \<times> (string \<times> service) list) list"

record 'txt env =
  yaml_parse :: "'txt \<Rightarrow> manifest option"
  yaml_stringify :: "manifest \<Rightarrow> 'txt"
  json_stringify :: "mapper \<Rightarrow> 'txt"
  network_subnet :: string
  app_dir :: string
  project_dirs :: "error + string list"
  unwritable :: "string \<Rightarrow> bool"
  locale_le :: "string \<Rightarrow> string \<Rightarrow> bool"

record 'txt world =
  files :: "string \<Rightarrow> 'txt option"
  logs :: "string list"

text \<open>
  \<^verbatim>\<open>NETWORK.base\<close>, line 36: the first three dot-separated parts of the subnet, each
  followed by a dot (a missing part prints as \<^verbatim>\<open>undefined\<close>).
\<close>

definition subnet_part :: "string \<Rightarrow> nat \<Rightarrow> string" where
  "subnet_part subnet i =
     (let parts = split_on CHR ''.'' subnet in if i < length parts then parts ! i else ''undefined'')"

definition network_base_of :: "string \<Rightarrow> string" where
  "network_base_of subnet =
     subnet_part subnet 0 @ ''.'' @ subnet_part subnet 1 @ ''.'' @ subnet_part subnet 2 @ ''.''"

definition NETWORK_base :: "'txt env \<Rightarrow> string" where
  "NETWORK_base e = network_base_of (network_subnet e)"

definition log :: "string \<Rightarrow> 'txt world \<Rightarrow> 'txt world" where
  "log msg w = w\<lparr>logs := logs w @ [msg]\<rparr>"

text \<open>
  \<^verbatim>\<open>writeCompose(filePath, obj)\<close>, lines 124-173: \<open>False\<close> and no write when the file
  holds exactly the serialized tree; otherwise the tree is sanitized, serialized again and
  written, and the result is \<open>True\<close>.
\<close>

definition writeCompose :: "'txt env \<Rightarrow> string \<Rightarrow> manifest \<Rightarrow> 'txt world \<Rightarrow> error + ('txt world \<times> bool)" where
  "writeCompose e filePath m w =
     (let yamlText = yaml_stringify e m
      in if files w filePath = Some yamlText then Inr (w, False)
         else (let finalYaml = yaml_stringify e (sanitize m)
               in if unwritable e filePath then Inl (IOError filePath)
                  else Inr (w\<lparr>files := (files w)(filePath \<mapsto> finalYaml)\<rparr>, True)))"

section \<open>Reconciler: the tick\<close>

text \<open>\<^verbatim>\<open>path.join(dir, 'docker-compose.yml')\<close> for a directory path without a trailing slash.\<close>

definition compose_path :: "string \<Rightarrow> string" where
  "compose_path d = d @ ''/docker-compose.yml''"

text \<open>
  Lines 240-284: every project directory in discovery order. A file that cannot be read
  or parsed, or a census that throws, is logged and the project is left out of
  \<^verbatim>\<open>composeData\<close>; the counts made before the throw remain.
\<close>

fun first_pass :: "'txt env \<Rightarrow> string list \<Rightarrow> census \<times> item list \<times> 'txt world \<Rightarrow> census \<times> item list \<times> 'txt world" where
  "first_pass e [] st = st"
| "first_pass e (d # ds) (c, composeData, w) =
     (case files w (compose_path d) of
        None \<Rightarrow> first_pass e ds (c, composeData, log (''failed parse '' @ compose_path d) w)
      | Some content \<Rightarrow>
          (case yaml_parse e content of
             None \<Rightarrow> first_pass e ds (c, composeData, log (''failed parse '' @ compose_path d) w)
           | Some m \<Rightarrow>
               (case census_services (services m) c of
                  (Some err, c1) \<Rightarrow>
                    first_pass e ds (c1, composeData, log (''failed parse '' @ compose_path d) w)
                | (None, c1) \<Rightarrow>
                    first_pass e ds
                      (c1,
                       composeData @ [\<lparr>dir = d, yml_file = compose_path d, obj = m,
                                        usedNets = usedNets_of (services m)\<rparr>],
                       w))))"

text \<open>\<^verbatim>\<open>composeData.sort((a, b) => a.dir.localeCompare(b.dir))\<close>: a stable sort.\<close>

fun insort_by :: "('a \<Rightarrow> 'a \<Rightarrow> bool) \<Rightarrow> 'a \<Rightarrow> 'a list \<Rightarrow> 'a list" where
  "insort_by le x [] = [x]"
| "insort_by le x (y # ys) = (if le x y then x # y # ys else y # insort_by le x ys)"

definition sort_by :: "('a \<Rightarrow> 'a \<Rightarrow> bool) \<Rightarrow> 'a list \<Rightarrow> 'a list" where
  "sort_by le xs = foldr (insort_by le) xs []"

text \<open>
  Lines 290-461: fix each project in sorted order and write its file. An exception of the
  fix (line 360) is not caught inside \<^verbatim>\<open>scanAndFix\<close> and ends the pass; a failed write is
  logged and the project is left out of the mapper.
\<close>

fun second_pass :: "'txt env \<Rightarrow> item list \<Rightarrow> census \<times> 'txt world \<times> mapper \<Rightarrow> error option \<times> census \<times> 'txt world \<times> mapper" where
  "second_pass e [] st = (None, st)"
| "second_pass e (it # its) (c, w, mp) =
     (case fix_item (NETWORK_base e) c it of
        Inl err \<Rightarrow> (Some err, c, w, mp)
      | Inr (m', serviceMapper, c1) \<Rightarrow>
          (case writeCompose e (yml_file it) m' w of
             Inl err \<Rightarrow> second_pass e its (c1, log (''write failed '' @ yml_file it) w, mp)
           | Inr (w1, changed) \<Rightarrow>
               second_pass e its
                 (c1, log (''updated '' @ yml_file it) w1,
                  obj_set (dir it) (yml_file it, serviceMapper) mp)))"

text \<open>Lines 464-482: the legacy mapper is removed and \<^verbatim>\<open>mapper.json\<close> written if it differs.\<close>

definition write_mapper :: "'txt env \<Rightarrow> mapper \<Rightarrow> 'txt world \<Rightarrow> 'txt world" where
  "write_mapper e mp w =
     (let legacy = app_dir e @ ''/mapper.js'';
          w1 = (if unwritable e legacy then w else w\<lparr>files := (files w)(legacy := None)\<rparr>);
          mapperFile = app_dir e @ ''/mapper.json'';
          content = json_stringify e mp
      in if files w1 mapperFile = Some content then log ''wrote mapper.json'' w1
         else if unwritable e mapperFile then log ''failed write mapper.json'' w1
         else log ''wrote mapper.json'' (w1\<lparr>files := (files w1)(mapperFile \<mapsto> content)\<rparr>))"

text \<open>
  \<^verbatim>\<open>scanAndFix()\<close>, lines 228-485. The first component of the result is the exception
  the call ends with, if any.
\<close>

definition scanAndFix :: "'txt env \<Rightarrow> 'txt world \<Rightarrow> error option \<times> 'txt world" where
  "scanAndFix e w =
     (let w0 = log ''scan start'' w
      in case project_dirs e of
           Inl err \<Rightarrow> (Some err, w0)
         | Inr projectDirs \<Rightarrow>
             (let (c, composeData, w1) = first_pass e projectDirs (empty_census, [], w0);
                  sorted = sort_by (\<lambda>a b. locale_le e (dir a) (dir b)) composeData
              in case second_pass e sorted (c, w1, []) of
                   (Some err, c', w2, mp) \<Rightarrow> (Some err, w2)
                 | (None, c', w2, mp) \<Rightarrow> (None, log ''scan done'' (write_mapper e mp w2))))"

text \<open>
  \<^verbatim>\<open>runner()\<close>, lines 488-499. \<open>activeTerminalCount\<close> is \<^verbatim>\<open>globalThis.activeTerminalCount\<close>,
  \<open>None\<close> while it is not a number. The first component of the result is the value the
  returned promise rejects with; the \<^verbatim>\<open>try\<close> block catches every exception of the scan.
\<close>

definition runner :: "'txt env \<Rightarrow> int option \<Rightarrow> 'txt world \<Rightarrow> error option \<times> 'txt world" where
  "runner e activeTerminalCount w =
     (if (case activeTerminalCount of None \<Rightarrow> False | Some n \<Rightarrow> n > 0)
      then (None, log (''skipping scan because activeTerminalCount='' @ string_of_int (the activeTerminalCount)) w)
      else (case scanAndFix e w of
              (Some err, w') \<Rightarrow> (None, log ''scan error'' w')
            | (None, w') \<Rightarrow> (None, w')))"

text \<open>
  The \<^verbatim>\<open>SINGLE_RUN\<close> entry point, lines 2500-2508: exit code 0 when the promise of
  \<^verbatim>\<open>runner()\<close> resolves, 1 when it rejects. In this mode the WebSocket server is never
  started, so the terminal counter is never assigned.
\<close>

definition single_run :: "'txt env \<Rightarrow> 'txt world \<Rightarrow> nat \<times> 'txt world" where
  "single_run e w =
     (case runner e None w of
        (None, w') \<Rightarrow> (0, log ''single run finished'' w')
      | (Some err, w') \<Rightarrow> (1, log ''single run error'' w'))"

section \<open>Proxy configuration: save with rollback\<close>

text \<open>
  \<^verbatim>\<open>POST /api/nginx/save\<close>, lines 1034-1105. The file system is a map from paths to
  contents. \<open>conf\<close> is the live file, \<open>now\<close> is \<^verbatim>\<open>Date.now()\<close>; \<open>copy_fails\<close>, \<open>write_fails\<close>
  and \<open>restore_fails\<close> say whether the backup copy, the write of the new content and the
  restoring copy throw; \<open>test_nginx\<close>, \<open>reload_nginx\<close> and \<open>reload_systemctl\<close> are the
  outcomes of the three external commands (\<open>None\<close> is success).
\<close>

record exec_failure =
  message :: string
  stdout :: string
  stderr :: string

record exec_report =
  r_error :: string
  r_stdout :: string
  r_stderr :: string

text \<open>\<^verbatim>\<open>formatExecError\<close> (lines 855-868) on the object \<^verbatim>\<open>{err, stdout, stderr}\<close>.\<close>

definition formatExecError :: "exec_failure \<Rightarrow> exec_report" where
  "formatExecError x =
     \<lparr>r_error = (if message x \<noteq> [] then message x else ''[object Object]''),
      r_stdout = stdout x, r_stderr = stderr x\<rparr>"

record nginx_env =
  conf :: string
  now :: nat
  copy_fails :: bool
  write_fails :: bool
  restore_fails :: bool
  test_nginx :: "exec_failure option"
  reload_nginx :: "exec_failure option"
  reload_systemctl :: "exec_failure option"

datatype save_response =
    BadRequest string
  | ServerError string
  | Failed string exec_report
  | Applied "string option"

definition backup_path :: "nginx_env \<Rightarrow> string" where
  "backup_path ne = conf ne @ ''.tmp.'' @ string_of_nat (now ne)"

text \<open>Restore the live file from the backup if one was taken, then delete the backup.\<close>

definition restore_and_cleanup :: "nginx_env \<Rightarrow> bool \<Rightarrow> (string \<Rightarrow> string option) \<Rightarrow> (string \<Rightarrow> string option)" where
  "restore_and_cleanup ne backedUp fs =
     (let fs1 = (if backedUp \<and> \<not> restore_fails ne then fs(conf ne := fs (backup_path ne)) else fs)
      in fs1(backup_path ne := None))"

definition nginx_save :: "nginx_env \<Rightarrow> string option \<Rightarrow> (string \<Rightarrow> string option) \<Rightarrow> save_response \<times> (string \<Rightarrow> string option)" where
  "nginx_save ne body fs =
     (case body of
        None \<Rightarrow> (BadRequest ''content required'', fs)
      | Some content \<Rightarrow>
          (let backedUp = (fs (conf ne) \<noteq> None \<and> \<not> copy_fails ne);
               fs1 = (if backedUp then fs(backup_path ne := fs (conf ne)) else fs)
           in if write_fails ne then (ServerError ''write'', fs1)
              else (let fs2 = fs1(conf ne \<mapsto> content)
                    in case test_nginx ne of
                         Some x \<Rightarrow> (Failed ''test'' (formatExecError x), restore_and_cleanup ne backedUp fs2)
                       | None \<Rightarrow>
                           (case reload_nginx ne of
                              None \<Rightarrow> (Applied None, fs2(backup_path ne := None))
                            | Some e2 \<Rightarrow>
                                (case reload_systemctl ne of
                                   None \<Rightarrow> (Applied (Some ''systemctl''), fs2(backup_path ne := None))
                                 | Some e3 \<Rightarrow>
                                     (Failed ''reload'' (formatExecError e2),
                                      restore_and_cleanup ne backedUp fs2))))))"

section \<open>Active terminal counter\<close>

text \<open>
  The WebSocket connection handler, lines 1872-2232, as a machine over the callbacks that
  Node runs for it, one at a time. Every connection increments
  \<^verbatim>\<open>globalThis.activeTerminalCount\<close> first (lines 1874-1875). The handler then rejects the
  connection, closes the socket and takes the increment back (missing parameters, no
  compose file, invalid address, failed spawn); or it spawns a terminal and installs the
  session's handlers at once (\<^verbatim>\<open>log\<close>, \<^verbatim>\<open>stop\<close>, \<^verbatim>\<open>restart\<close>); or it waits for a call of
  \<^verbatim>\<open>runCompose\<close> first (\<^verbatim>\<open>inspect\<close> fetches the history, for up to 20 seconds; the default
  action looks the container up) and spawns and installs, or rejects, when that call is
  over.

  Of a connection the machine records whether its socket is open (\<^verbatim>\<open>ws.readyState === 1\<close>),
  how far the handler got, the once-flag \<^verbatim>\<open>sessionClosed\<close> of its \<^verbatim>\<open>onCloseCleanup\<close>, and
  whether a terminal process of the connection is running.
\<close>

datatype kind = Inspect | LogStream | Action | Exec

datatype stage = Waiting kind | Session kind | Rejected

record conn =
  socket_open :: bool
  stage :: stage
  sessionClosed :: bool
  term_running :: bool

record term_state =
  activeTerminalCount :: "int option"
  conns :: "conn list"

text \<open>
  The callbacks. \<open>Connect_rejected\<close>: a connection that the handler rejects before it
  returns. \<open>Connect k\<close>: a connection that it accepts, with the action \<open>k\<close>.
  \<open>Wait_over i found\<close>: the \<^verbatim>\<open>runCompose\<close> call that connection \<open>i\<close> waits for is over;
  \<open>found\<close> says whether the default action got a container id (\<^verbatim>\<open>inspect\<close> goes on
  whatever the outcome, lines 1903-1909). \<open>Term_exit i\<close>: the terminal process of
  connection \<open>i\<close> exits. \<open>Respawn i\<close>: the 3-second timer of the \<^verbatim>\<open>inspect\<close> exit handler
  fires (lines 2025-2029). \<open>Ws_close i\<close>: the socket of connection \<open>i\<close> closes.
\<close>

datatype event =
    Connect_rejected
  | Connect kind
  | Wait_over nat bool
  | Term_exit nat
  | Respawn nat
  | Ws_close nat

definition term_init :: term_state where
  "term_init = \<lparr>activeTerminalCount = None, conns = []\<rparr>"

text \<open>\<^verbatim>\<open>globalThis.activeTerminalCount || 0\<close>.\<close>

definition count_or_0 :: "term_state \<Rightarrow> int" where
  "count_or_0 st = (case activeTerminalCount st of None \<Rightarrow> 0 | Some n \<Rightarrow> n)"

text \<open>Lines 1874-1875: set to 0 unless a number, then increment.\<close>

definition increment :: "term_state \<Rightarrow> term_state" where
  "increment st = st\<lparr>activeTerminalCount := Some (count_or_0 st + 1)\<rparr>"

text \<open>\<^verbatim>\<open>Math.max(0, (globalThis.activeTerminalCount||0) - 1)\<close>.\<close>

definition decrement :: "term_state \<Rightarrow> term_state" where
  "decrement st = st\<lparr>activeTerminalCount := Some (max 0 (count_or_0 st - 1))\<rparr>"

definition set_conn :: "nat \<Rightarrow> conn \<Rightarrow> term_state \<Rightarrow> term_state" where
  "set_conn i c st = st\<lparr>conns := (conns st)[i := c]\<rparr>"

text \<open>
  \<^verbatim>\<open>onCloseCleanup\<close> of connection \<open>i\<close> (lines 1946-1951, 2126, 2164-2171, 2206-2211): the
  once-flag guards the decrement. \<^verbatim>\<open>term.kill()\<close> signals the terminal; its exit is a
  later callback.
\<close>

definition onCloseCleanup :: "nat \<Rightarrow> term_state \<Rightarrow> term_state" where
  "onCloseCleanup i st =
     (if sessionClosed (conns st ! i) then st
      else decrement (set_conn i ((conns st ! i)\<lparr>sessionClosed := True\<rparr>) st))"

text \<open>
  A new connection, after the increment. \<^verbatim>\<open>log\<close>, \<^verbatim>\<open>stop\<close> and \<^verbatim>\<open>restart\<close> spawn and
  install at once (lines 2093-2132, 2153-2188); \<^verbatim>\<open>inspect\<close> and the default action wait
  (lines 1902-1904, 2193), and until the wait is over no handler of the connection is
  registered on the socket.
\<close>

definition accepted :: "kind \<Rightarrow> conn" where
  "accepted k =
     (if k = LogStream \<or> k = Action
      then \<lparr>socket_open = True, stage = Session k, sessionClosed = False, term_running = True\<rparr>
      else \<lparr>socket_open = True, stage = Waiting k, sessionClosed = False, term_running = False\<rparr>)"

definition rejected :: conn where
  "rejected = \<lparr>socket_open = False, stage = Rejected, sessionClosed = False, term_running = False\<rparr>"

text \<open>
  The wait of connection \<open>i\<close> is over. \<^verbatim>\<open>inspect\<close> (lines 1910-2053): \<^verbatim>\<open>spawnFollow()\<close>
  tests \<^verbatim>\<open>sessionClosed\<close> only and spawns the follower, then \<^verbatim>\<open>ws.on('close', ...)\<close> is
  registered, whatever the state of the socket. The default action (lines 2193-2231):
  without a container id, or when the call failed, the socket is closed and the increment
  taken back; with one, the shell is spawned and the handlers are installed.
\<close>

definition wait_over :: "nat \<Rightarrow> bool \<Rightarrow> term_state \<Rightarrow> term_state" where
  "wait_over i found st =
     (let c = conns st ! i
      in case stage c of
           Waiting k \<Rightarrow>
             if k = Inspect \<or> found
             then set_conn i (c\<lparr>stage := Session k, term_running := True\<rparr>) st
             else decrement (set_conn i (c\<lparr>stage := Rejected, socket_open := False\<rparr>) st)
         | _ \<Rightarrow> st)"

text \<open>
  The terminal of connection \<open>i\<close> exits. The exit handler of \<^verbatim>\<open>inspect\<close> (lines 2015-2030)
  sends a notice and sets the respawn timer; it does not call \<^verbatim>\<open>onCloseCleanup\<close>. The exit
  handlers of the other sessions (lines 2127, 2172, 2212) call \<^verbatim>\<open>onCloseCleanup\<close> and close
  the socket, whose \<^verbatim>\<open>close\<close> handler then finds the once-flag set.
\<close>

definition term_exit :: "nat \<Rightarrow> term_state \<Rightarrow> term_state" where
  "term_exit i st =
     (let c = conns st ! i
      in if \<not> term_running c then st
         else (let st1 = set_conn i (c\<lparr>term_running := False\<rparr>) st
               in if stage c = Session Inspect then st1
                  else (let st2 = onCloseCleanup i st1
                        in set_conn i ((conns st2 ! i)\<lparr>socket_open := False\<rparr>) st2)))"

text \<open>\<^verbatim>\<open>if (!sessionClosed && ws && ws.readyState === 1) spawnFollow();\<close>\<close>

definition respawn :: "nat \<Rightarrow> term_state \<Rightarrow> term_state" where
  "respawn i st =
     (let c = conns st ! i
      in if stage c = Session Inspect \<and> \<not> term_running c \<and> \<not> sessionClosed c \<and> socket_open c
         then set_conn i (c\<lparr>term_running := True\<rparr>) st
         else st)"

text \<open>
  The socket of connection \<open>i\<close> closes: the \<^verbatim>\<open>close\<close> handler runs if the session has
  registered one (lines 2053, 2132, 2188, 2230); a socket closes once.
\<close>

definition ws_close :: "nat \<Rightarrow> term_state \<Rightarrow> term_state" where
  "ws_close i st =
     (let c = conns st ! i
      in if \<not> socket_open c then st
         else (let st1 = set_conn i (c\<lparr>socket_open := False\<rparr>) st
               in case stage c of Session k \<Rightarrow> onCloseCleanup i st1 | _ \<Rightarrow> st1))"

text \<open>A callback for a connection that does not exist does not occur: it changes nothing.\<close>

fun step :: "event \<Rightarrow> term_state \<Rightarrow> term_state" where
  "step Connect_rejected st = decrement ((increment st)\<lparr>conns := conns st @ [rejected]\<rparr>)"
| "step (Connect k) st = (increment st)\<lparr>conns := conns st @ [accepted k]\<rparr>"
| "step (Wait_over i found) st = (if i < length (conns st) then wait_over i found st else st)"
| "step (Term_exit i) st = (if i < length (conns st) then term_exit i st else st)"
| "step (Respawn i) st = (if i < length (conns st) then respawn i st else st)"
| "step (Ws_close i) st = (if i < length (conns st) then ws_close i st else st)"

definition run_events :: "event list \<Rightarrow> term_state \<Rightarrow> term_state" where
  "run_events evs st = fold step evs st"

text \<open>
  No session exists: every socket is closed, no terminal is running, and no connection
  waits for its deferred step.
\<close>

definition is_waiting :: "conn \<Rightarrow> bool" where
  "is_waiting c = (case stage c of Waiting k \<Rightarrow> True | _ \<Rightarrow> False)"

definition no_sessions :: "term_state \<Rightarrow> bool" where
  "no_sessions st = list_all (\<lambda>c. \<not> socket_open c \<and> \<not> term_running c \<and> \<not> is_waiting c) (conns st)"

section \<open>Path confinement of compose commands\<close>

text \<open>
  Node's POSIX \<^verbatim>\<open>path\<close> functions on the segments of a path. \<open>norm_segs\<close> normalizes an
  absolute path: empty and \<^verbatim>\<open>.\<close> segments vanish, \<^verbatim>\<open>..\<close> removes the segment before it
  and is dropped at the root. \<open>path_resolve root p\<close> is \<^verbatim>\<open>path.resolve(root, p)\<close> for an
  absolute \<open>root\<close> (the working directory); the functions are lexical and follow no
  symbolic link.
\<close>

definition norm_step :: "string list \<Rightarrow> string \<Rightarrow> string list" where
  "norm_step acc seg =
     (if seg = [] \<or> seg = ''.'' then acc
      else if seg = ''..'' then butlast acc
      else acc @ [seg])"

definition norm_segs :: "string \<Rightarrow> string list" where
  "norm_segs p = foldl norm_step [] (split_on CHR ''/'' p)"

definition render :: "string list \<Rightarrow> string" where
  "render segs = CHR ''/'' # join_with CHR ''/'' segs"

definition is_absolute :: "string \<Rightarrow> bool" where
  "is_absolute p = (case p of [] \<Rightarrow> False | c # _ \<Rightarrow> c = CHR ''/'')"

definition resolve_segs :: "string \<Rightarrow> string \<Rightarrow> string list" where
  "resolve_segs root p = norm_segs (if is_absolute p then p else root @ ''/'' @ p)"

definition path_resolve :: "string \<Rightarrow> string \<Rightarrow> string" where
  "path_resolve root p = render (resolve_segs root p)"

text \<open>
  \<^verbatim>\<open>path.relative(from, to)\<close> for absolute paths: one \<^verbatim>\<open>..\<close> for every segment of
  \<open>from\<close> after the longest common prefix, then the rest of \<open>to\<close>.
\<close>

fun common_prefix_len :: "string list \<Rightarrow> string list \<Rightarrow> nat" where
  "common_prefix_len (x # xs) (y # ys) = (if x = y then Suc (common_prefix_len xs ys) else 0)"
| "common_prefix_len _ _ = 0"

definition relative_segs :: "string list \<Rightarrow> string list \<Rightarrow> string list" where
  "relative_segs from to =
     (let k = common_prefix_len from to
      in replicate (length from - k) ''..'' @ drop k to)"

definition path_relative :: "string \<Rightarrow> string \<Rightarrow> string" where
  "path_relative from to = join_with CHR ''/'' (relative_segs (norm_segs from) (norm_segs to))"

text \<open>\<^verbatim>\<open>sanitizePath(inputPath)\<close>, lines 51-64; \<open>root\<close> is \<^verbatim>\<open>WORKSPACE_ROOT\<close>.\<close>

definition sanitizePath :: "string \<Rightarrow> string \<Rightarrow> string option" where
  "sanitizePath root inputPath =
     (if inputPath = [] then None
      else (let resolved = path_resolve root inputPath;
                relative = path_relative root resolved
            in if take 2 relative = ''..'' \<or> is_absolute relative then None
               else Some resolved))"

text \<open>
  \<^verbatim>\<open>runCompose(file, args)\<close>, lines 813-852. \<open>file_exists\<close> is \<^verbatim>\<open>fs.existsSync\<close> and
  \<open>exec\<close> the outcome of \<^verbatim>\<open>execFile\<close>; the result comes with the list of the commands
  that were run.
\<close>

datatype exec_outcome = Exec_ok string string | Exec_failed bool string

record compose_env =
  workspace_root :: string
  file_exists :: "string \<Rightarrow> bool"
  exec :: "string \<Rightarrow> string list \<Rightarrow> exec_outcome"

type_synonym command = "string \<times> string list"

definition runCompose :: "compose_env \<Rightarrow> string \<Rightarrow> string list \<Rightarrow> (string + string \<times> string) \<times> command list" where
  "runCompose ce file args =
     (case sanitizePath (workspace_root ce) file of
        None \<Rightarrow> (Inl ''Invalid file path'', [])
      | Some safePath \<Rightarrow>
          if \<not> file_exists ce safePath then (Inl ''Compose file not found'', [])
          else (let dockerArgs = [''compose'', ''-f'', safePath] @ args;
                    legacyArgs = [''-f'', safePath] @ args
                in case exec ce ''docker'' dockerArgs of
                     Exec_ok out err \<Rightarrow> (Inr (out, err), [(''docker'', dockerArgs)])
                   | Exec_failed noDockerBinary msg \<Rightarrow>
                       if \<not> noDockerBinary then (Inl msg, [(''docker'', dockerArgs)])
                       else (case exec ce ''docker-compose'' legacyArgs of
                               Exec_ok out err \<Rightarrow>
                                 (Inr (out, err), [(''docker'', dockerArgs), (''docker-compose'', legacyArgs)])
                             | Exec_failed b msg2 \<Rightarrow>
                                 (Inl msg2, [(''docker'', dockerArgs), (''docker-compose'', legacyArgs)]))))"

text \<open>The file a compose command is run against: the argument after \<^verbatim>\<open>-f\<close>.\<close>

fun target_file :: "string list \<Rightarrow> string option" where
  "target_file (a # b # rest) = (if a = ''-f'' then Some b else target_file (b # rest))"
| "target_file _ = None"

text \<open>A path is inside the workspace when the root's segments begin its own.\<close>

definition inside_root :: "string \<Rightarrow> string \<Rightarrow> bool" where
  "inside_root root p = prefix (norm_segs root) (norm_segs p)"

text \<open>
  The WebSocket handler builds its own compose commands. \<^verbatim>\<open>path.normalize\<close> for any path:
  in a relative path a \<^verbatim>\<open>..\<close> that has no segment to remove is kept.
\<close>

definition norm_step_rel :: "string list \<Rightarrow> string \<Rightarrow> string list" where
  "norm_step_rel acc seg =
     (if seg = [] \<or> seg = ''.'' then acc
      else if seg = ''..'' then (if acc = [] \<or> last acc = ''..'' then acc @ [''..''] else butlast acc)
      else acc @ [seg])"

definition path_normalize :: "string \<Rightarrow> string" where
  "path_normalize p =
     (if p = [] then ''.''
      else (let absolute = is_absolute p;
                trailing = (last p = CHR ''/'');
                body = join_with CHR ''/''
                         (foldl (if absolute then norm_step else norm_step_rel) [] (split_on CHR ''/'' p))
            in if body = [] then (if absolute then ''/'' else if trailing then ''./'' else ''.'')
               else (if absolute then ''/'' else []) @ body @ (if trailing then ''/'' else [])))"

text \<open>\<^verbatim>\<open>path.join(a, b)\<close>: the non-empty arguments joined by a slash, then normalized.\<close>

definition path_join :: "string \<Rightarrow> string \<Rightarrow> string" where
  "path_join a b =
     (if a = [] \<and> b = [] then ''.''
      else path_normalize (if a = [] then b else if b = [] then a else a @ ''/'' @ b))"

text \<open>
  \<^verbatim>\<open>path.dirname(p)\<close>: trailing slashes and the last segment are dropped, up to the slash
  before it; the first character is never looked at as a separator.
\<close>

definition path_dirname :: "string \<Rightarrow> string" where
  "path_dirname p =
     (case p of
        [] \<Rightarrow> ''.''
      | c # cs \<Rightarrow>
          (case dropWhile (\<lambda>x. x \<noteq> CHR ''/'') (dropWhile (\<lambda>x. x = CHR ''/'') (rev cs)) of
             [] \<Rightarrow> if c = CHR ''/'' then ''/'' else ''.''
           | s # before \<Rightarrow> if c = CHR ''/'' \<and> before = [] then ''//'' else c # rev before))"

text \<open>
  \<^verbatim>\<open>JSON.stringify(s)\<close> for a string: the quote and the backslash are escaped by a
  backslash, a control character by its short escape or by \<^verbatim>\<open>u00\<close> and two hexadecimal digits after a backslash.
\<close>

definition hex_digit :: "nat \<Rightarrow> char" where
  "hex_digit d = ''0123456789abcdef'' ! d"

definition json_char :: "char \<Rightarrow> string" where
  "json_char c =
     (if c = CHR 0x22 then [CHR 0x5C, CHR 0x22]
      else if c = CHR 0x5C then [CHR 0x5C, CHR 0x5C]
      else if c = CHR 0x08 then [CHR 0x5C, CHR ''b'']
      else if c = CHR 0x09 then [CHR 0x5C, CHR ''t'']
      else if c = CHR 0x0A then [CHR 0x5C, CHR ''n'']
      else if c = CHR 0x0C then [CHR 0x5C, CHR ''f'']
      else if c = CHR 0x0D then [CHR 0x5C, CHR ''r'']
      else if (of_char c :: nat) < 32
      then [CHR 0x5C, CHR ''u'', CHR ''0'', CHR ''0'', hex_digit (of_char c div 16), hex_digit (of_char c mod 16)]
      else [c])"

definition json_string :: "string \<Rightarrow> string" where
  "json_string s = CHR 0x22 # concat (map json_char s) @ [CHR 0x22]"

text \<open>
  The connection handler of \<^verbatim>\<open>/ws/attach\<close> up to its first terminal, lines 1878-1896,
  1898-1930 and 2135-2160. \<open>file\<close>, \<open>svc\<close> and \<open>action\<close> are the query parameters of the
  request, empty when missing. The compose file is the parameter itself, or the
  \<^verbatim>\<open>docker-compose.yml\<close> in it when there is one; the only test is that it exists.
  \<^verbatim>\<open>inspect\<close> first asks \<^verbatim>\<open>runCompose\<close> for the history, goes on whatever the outcome, and
  spawns the follower; \<^verbatim>\<open>stop\<close> and \<^verbatim>\<open>restart\<close> spawn their command at once. Both run a
  script of the project directory if there is an executable one, and otherwise a shell
  with a compose command line. The result is the terminal spawned: the program, its
  arguments and its working directory. The \<^verbatim>\<open>log\<close> action follows the proxy log and the
  default action goes through \<^verbatim>\<open>runCompose\<close>; they spawn no compose command of their own.
\<close>

record attach_env =
  path_exists :: "string \<Rightarrow> bool"
  path_executable :: "string \<Rightarrow> bool"

datatype attach_result =
    Attach_rejected string
  | Attach_spawned string "string list" string
  | Attach_no_compose_spawn

definition compose_or_legacy :: "string \<Rightarrow> string \<Rightarrow> string" where
  "compose_or_legacy composeFile rest =
     ''docker compose -f '' @ json_string composeFile @ '' '' @ rest
       @ '' || docker-compose -f '' @ json_string composeFile @ '' '' @ rest"

definition attach :: "attach_env \<Rightarrow> string \<Rightarrow> string \<Rightarrow> string \<Rightarrow> attach_result" where
  "attach ae file svc action =
     (if file = [] \<or> svc = [] then Attach_rejected ''missing file or service''
      else (let inDir = path_join file ''docker-compose.yml'';
                composeFile = (if path_exists ae inDir then inDir else file);
                projectDir = path_dirname composeFile
            in if \<not> path_exists ae composeFile then Attach_rejected ''compose file not found''
               else if action = ''inspect'' \<or> action = ''restart'' \<or> action = ''stop''
               then (let scriptPath = path_join projectDir (action @ ''.sh'');
                         line =
                           (if path_exists ae scriptPath \<and> path_executable ae scriptPath
                            then json_string scriptPath @ '' '' @ json_string svc
                            else if action = ''inspect''
                            then compose_or_legacy composeFile (''logs --no-color --tail 500 -f '' @ json_string svc)
                            else compose_or_legacy composeFile (action @ '' '' @ json_string svc))
                     in Attach_spawned ''bash'' [''-lc'', line] projectDir)
               else Attach_no_compose_spawn))"

section \<open>A concrete environment\<close>

text \<open>
  For running the model on explicit inputs, file contents are documents: the tree a
  compose file parses to, the mapper a mapper file holds, or text that does not parse.
  Serializing is injective and parsing is its inverse, as round-trip law L1 of the
  specification asks of the YAML library.
\<close>

datatype doc = Yaml manifest | Json mapper | Raw string

definition doc_env :: "error + string list \<Rightarrow> doc env" where
  "doc_env ds =
     \<lparr>yaml_parse = (\<lambda>d. case d of Yaml m \<Rightarrow> Some m | _ \<Rightarrow> None),
      yaml_stringify = Yaml,
      json_stringify = Json,
      network_subnet = ''172.28.0.0/16'',
      app_dir = ''/srv'',
      project_dirs = ds,
      unwritable = (\<lambda>p. False),
      locale_le = (\<lambda>a b. True)\<rparr>"

text \<open>A service with an image and nothing else; one with ports; one with networks.\<close>

definition plain_service :: service where
  "plain_service =
     \<lparr>ports = None, networks = None, svc_ipv4_address = None, svc_ipv4Address = None,
      svc_rest = ''image: nginx''\<rparr>"

definition service_with_ports :: "string list \<Rightarrow> service" where
  "service_with_ports ps = plain_service\<lparr>ports := Some (map PStr ps)\<rparr>"

definition service_on_net :: "string \<Rightarrow> net_entry \<Rightarrow> service" where
  "service_on_net netName n = plain_service\<lparr>networks := Some [(netName, n)]\<rparr>"

definition one_project :: "manifest \<Rightarrow> doc world" where
  "one_project m = \<lparr>files = [''/srv/apps/a/docker-compose.yml'' \<mapsto> Yaml m], logs = []\<rparr>"

definition one_project_env :: "doc env" where
  "one_project_env = doc_env (Inr [''/srv/apps/a''])"

text \<open>Scenario: a manifest whose only top-level network is one that no service uses.\<close>

definition unused_network_manifest :: manifest where
  "unused_network_manifest =
     \<lparr>services = [(''web'', plain_service)],
      top_networks = Some [(''old-net'', TopOther ''driver: bridge'')], m_rest = []\<rparr>"

text \<open>Scenario: a service attached to the default network by a bare address string.\<close>

definition bare_ip_manifest :: manifest where
  "bare_ip_manifest =
     \<lparr>services = [(''web'', service_on_net ''neuxbane-core-net'' (NetStr ''172.28.0.3''))],
      top_networks = Some [(''neuxbane-core-net'', TopExternal None)], m_rest = []\<rparr>"

text \<open>
  Scenario: two services that expose container port 8080 without a host port, and one
  that maps host port 8080.
\<close>

definition container_only_manifest :: manifest where
  "container_only_manifest =
     \<lparr>services = [(''db1'', service_with_ports [''8080'']),
                  (''db2'', service_with_ports [''8080'']),
                  (''web'', service_with_ports [''8080:80''])],
      top_networks = Some [(''neuxbane-core-net'', TopExternal None)], m_rest = []\<rparr>"

text \<open>Scenario: the workspace root cannot be read.\<close>

definition unreadable_root_env :: "doc env" where
  "unreadable_root_env = doc_env (Inl (IOError ''/srv''))"

text \<open>Scenario: a proxy configuration whose test fails.\<close>

definition failing_test_env :: nginx_env where
  "failing_test_env =
     \<lparr>conf = ''/srv/core/default.conf'', now = 1700000000000,
      copy_fails = False, write_fails = False, restore_fails = False,
      test_nginx = Some \<lparr>message = ''Command failed: nginx -t'', stdout = [], stderr = ''unexpected }''\<rparr>,
      reload_nginx = None, reload_systemctl = None\<rparr>"

text \<open>Scenario: compose commands in the workspace \<^verbatim>\<open>/srv\<close>, every file present, docker present.\<close>

definition srv_env :: compose_env where
  "srv_env =
     \<lparr>workspace_root = ''/srv'', file_exists = (\<lambda>p. True),
      exec = (\<lambda>cmd args. Exec_ok [] [])\<rparr>"

text \<open>
  Scenario: one service whose only port is a long-syntax mapping,
  \<^verbatim>\<open>{target: 80, published: 8080}\<close>.
\<close>

definition long_syntax_manifest :: manifest where
  "long_syntax_manifest =
     \<lparr>services = [(''web'', plain_service\<lparr>ports := Some [PObj [(''target'', SNum 80), (''published'', SNum 8080)]]\<rparr>)],
      top_networks = Some [(''neuxbane-core-net'', TopExternal None)], m_rest = []\<rparr>"

text \<open>
  Scenario: the compose file \<^verbatim>\<open>/etc/evil/docker-compose.yml\<close> exists; no project script
  is executable.
\<close>

definition outside_env :: attach_env where
  "outside_env =
     \<lparr>path_exists = (\<lambda>p. p = ''/etc/evil/docker-compose.yml''), path_executable = (\<lambda>p. False)\<rparr>"

text \<open>A segment of a normalized path: not empty, not a dot segment, and without a slash.\<close>

definition clean_seg :: "string \<Rightarrow> bool" where
  "clean_seg seg = (seg \<noteq> [] \<and> seg \<noteq> ''.'' \<and> seg \<noteq> ''..'' \<and> CHR ''/'' \<notin> set seg)"

text \<open>
  The census of a tick: the state of the three accumulators when pass one is over and
  pass two begins.
\<close>

definition tick_census :: "'txt env \<Rightarrow> 'txt world \<Rightarrow> census" where
  "tick_census e w =
     (case project_dirs e of
        Inl err \<Rightarrow> empty_census
      | Inr projectDirs \<Rightarrow> fst (first_pass e projectDirs (empty_census, [], log ''scan start'' w)))"

section \<open>The allocator returns the first free octet\<close>

lemma allocate_loop_full: "length ips \<ge> n \<Longrightarrow> allocate_loop base used n i ips = ips"
  by (subst allocate_loop.simps) simp

lemma allocate_loop_one:
  "allocate_loop base used (Suc 0) i [] =
     (case filter (\<lambda>j. string_of_nat j \<notin> set used) [i..<255] of
        [] \<Rightarrow> [] | j # _ \<Rightarrow> [base @ string_of_nat j])"
proof (induction "255 - i" arbitrary: i)
  case 0
  then show ?case by (subst allocate_loop.simps) simp
next
  case (Suc k)
  then have lt: "i < 255" and k: "k = 255 - (i + 1)" by auto
  have up: "[i..<255] = i # [i + 1..<255]" using lt by (simp add: upt_conv_Cons)
  show ?case
  proof (cases "string_of_nat i \<in> set used")
    case True
    then show ?thesis using Suc.hyps(1)[OF k] lt
      by (subst allocate_loop.simps) (simp add: up)
  next
    case False
    then show ?thesis using lt
      by (subst allocate_loop.simps) (simp add: up allocate_loop_full)
  qed
qed

lemma filter_upt_head:
  "filter P [i..<n] = j # rest \<Longrightarrow> i \<le> j \<and> j < n \<and> P j \<and> (\<forall>k. i \<le> k \<and> k < j \<longrightarrow> \<not> P k)"
proof (induction "n - i" arbitrary: i)
  case 0
  then show ?case by simp
next
  case (Suc d)
  then have lt: "i < n" by auto
  have up: "[i..<n] = i # [i + 1..<n]" using lt by (simp add: upt_conv_Cons)
  show ?case
  proof (cases "P i")
    case True
    then show ?thesis using Suc.prems lt by (auto simp: up)
  next
    case False
    then have "filter P [i + 1..<n] = j # rest" using Suc.prems by (simp add: up)
    moreover have "d = n - (i + 1)" using Suc.hyps(2) by simp
    ultimately have "i + 1 \<le> j \<and> j < n \<and> P j \<and> (\<forall>k. i + 1 \<le> k \<and> k < j \<longrightarrow> \<not> P k)"
      using Suc.hyps(1) by blast
    then have a: "i + 1 \<le> j" "j < n" "P j" and b: "\<forall>k. i + 1 \<le> k \<and> k < j \<longrightarrow> \<not> P k"
      by auto
    have "\<not> P k" if "i \<le> k \<and> k < j" for k
    proof (cases "k = i")
      case True
      then show ?thesis using False by simp
    next
      case False
      then have "i + 1 \<le> k" using that by simp
      then show ?thesis using b that by blast
    qed
    then show ?thesis using a by auto
  qed
qed

lemma allocateIps_one:
  "allocateIps base existingIps 1 =
     (case filter (\<lambda>j. octet_free existingIps j) [2..<255] of
        [] \<Rightarrow> [] | j # _ \<Rightarrow> [base @ string_of_nat j])"
  unfolding allocateIps_def One_nat_def octet_free_def set_map [symmetric]
  by (rule allocate_loop_one)

lemma nextIpv4_cases:
  "nextIpv4 base existingIps =
     (case filter (\<lambda>j. octet_free existingIps j) [2..<255] of
        [] \<Rightarrow> None | j # _ \<Rightarrow> Some (base @ string_of_nat j))"
proof (cases "filter (\<lambda>j. octet_free existingIps j) [2..<255]")
  case Nil
  then show ?thesis unfolding nextIpv4_def allocateIps_one by (simp only: list.case)
next
  case (Cons j rest)
  then show ?thesis unfolding nextIpv4_def allocateIps_one by (simp only: list.case)
qed

text \<open>
  What the allocator computes. \<^verbatim>\<open>allocateIps(used, 1)[0]\<close> is a function of its arguments
  and of \<^verbatim>\<open>NETWORK.base\<close> alone. It returns the base followed by the smallest \<open>i\<close> from 2
  to 254 such that no used address, of whatever subnet, ends in the segment \<open>i\<close>; every
  smaller octet from 2 on is the last segment of some used address. When no octet from 2
  to 254 is free in this sense, it returns nothing. It never returns an address outside
  \<open>.2 \<dots> .254\<close> of the base.
\<close>

lemma nextIpv4_smallest_free_octet:
  "(\<exists>i. 2 \<le> i \<and> i \<le> 254 \<and> nextIpv4 base existingIps = Some (base @ string_of_nat i)
        \<and> octet_free existingIps i \<and> (\<forall>j. 2 \<le> j \<and> j < i \<longrightarrow> \<not> octet_free existingIps j))
   \<or> (nextIpv4 base existingIps = None \<and> (\<forall>j. 2 \<le> j \<and> j \<le> 254 \<longrightarrow> \<not> octet_free existingIps j))"
proof (cases "filter (\<lambda>j. octet_free existingIps j) [2..<255]")
  case Nil
  have "\<not> octet_free existingIps j" if "2 \<le> j \<and> j \<le> 254" for j
  proof -
    have "j \<in> set [2..<255]" using that by (simp only: set_upt atLeastLessThan_iff) arith
    then show ?thesis using Nil by (simp only: filter_empty_conv) blast
  qed
  moreover have "nextIpv4 base existingIps = None"
    by (simp only: nextIpv4_cases Nil list.case)
  ultimately show ?thesis by blast
next
  case (Cons i rest)
  from filter_upt_head[OF Cons]
  have "2 \<le> i" "i < 255" "octet_free existingIps i"
    "\<forall>k. 2 \<le> k \<and> k < i \<longrightarrow> \<not> octet_free existingIps k"
    by blast+
  moreover have "nextIpv4 base existingIps = Some (base @ string_of_nat i)"
    by (simp only: nextIpv4_cases Cons list.case)
  moreover have "i \<le> 254" using \<open>i < 255\<close> by arith
  ultimately show ?thesis by blast
qed

text \<open>
  The theorem at the used set \<^verbatim>\<open>172.28.0.2\<close>, \<^verbatim>\<open>10.0.0.3\<close>: octets 2 and 3 are taken, the
  second by an address of another subnet, and \<^verbatim>\<open>172.28.0.4\<close> is returned.
\<close>

lemma nextIpv4_smallest_free_octet_example:
  "nextIpv4 ''172.28.0.'' [''172.28.0.2'', ''10.0.0.3''] = Some ''172.28.0.4''
   \<and> octet_free [''172.28.0.2'', ''10.0.0.3''] 4
   \<and> \<not> octet_free [''172.28.0.2'', ''10.0.0.3''] 2
   \<and> \<not> octet_free [''172.28.0.2'', ''10.0.0.3''] 3"
proof -
  have v: "nextIpv4 ''172.28.0.'' [''172.28.0.2'', ''10.0.0.3''] = Some ''172.28.0.4''"
    by code_simp
  have f: "octet_free [''172.28.0.2'', ''10.0.0.3''] 4" "\<not> octet_free [''172.28.0.2'', ''10.0.0.3''] 2"
    "\<not> octet_free [''172.28.0.2'', ''10.0.0.3''] 3"
    by code_simp+
  show ?thesis
    using nextIpv4_smallest_free_octet [of "''172.28.0.''" "[''172.28.0.2'', ''10.0.0.3'']"] v f
    by simp
qed

text \<open>
  Claim C5, at the used set \<^verbatim>\<open>10.0.0.2\<close> and the base \<^verbatim>\<open>172.28.0.\<close>: the address
  \<^verbatim>\<open>172.28.0.2\<close> is the smallest host address of the base that is not used, and the
  allocator returns \<^verbatim>\<open>172.28.0.3\<close>. Line 219 keeps only the last dot-separated segment of
  every used address, so an address of another subnet takes the same octet of the base.
\<close>

theorem nextIpv4_skips_unused_address:
  "nextIpv4 ''172.28.0.'' [''10.0.0.2''] = Some ''172.28.0.3''
   \<and> ''172.28.0.2'' \<notin> set [''10.0.0.2'']"
  by code_simp

section \<open>The periodic runner and the single run\<close>

text \<open>
  Claim C7. When the active-terminal counter is a number greater than zero, the runner
  returns at once: the whole effect of the tick is one log line. No file is read or
  written, so every compose file and the mapper file are as they were.
\<close>

theorem runner_skips_tick_while_terminal_active:
  "0 < n \<Longrightarrow>
     runner e (Some n) w =
       (None, w\<lparr>logs := logs w @ [''skipping scan because activeTerminalCount='' @ string_of_int n]\<rparr>)
     \<and> files (snd (runner e (Some n) w)) = files w"
  by (simp add: runner_def log_def)

theorem runner_skips_tick_while_terminal_active_witness:
  "(0::int) < 2
   \<and> files (snd (runner one_project_env (Some 2) (one_project container_only_manifest)))
       = files (one_project container_only_manifest)
   \<and> logs (snd (runner one_project_env (Some 2) (one_project container_only_manifest)))
       = [''skipping scan because activeTerminalCount=2'']"
proof -
  have h: "(0::int) < 2" by simp
  have s: "string_of_int 2 = ''2''" by code_simp
  show ?thesis
    using runner_skips_tick_while_terminal_active [OF h, of one_project_env "one_project container_only_manifest"] s
    by (simp add: one_project_def)
qed

lemma runner_never_rejects: "fst (runner e a w) = None"
  by (simp add: runner_def split: prod.splits option.splits)

lemma single_run_exit_code: "fst (single_run e w) = 0"
proof (cases "runner e None w")
  case (Pair r w')
  then have "r = None" using runner_never_rejects [of e None w] by simp
  then show ?thesis using Pair by (simp add: single_run_def)
qed

text \<open>
  Claim C9, at a workspace root that cannot be read. The scan ends with the I/O error; the
  runner catches and logs it (line 497) and its promise resolves, so the single run takes
  the \<^verbatim>\<open>then\<close> branch and exits with code 0, where the claim asks for code 1. By
  \<open>single_run_exit_code\<close> the exit code is 0 on every input: the \<^verbatim>\<open>catch\<close> branch with
  \<^verbatim>\<open>process.exit(1)\<close> cannot be reached.
\<close>

theorem single_run_exits_0_after_scan_error:
  "fst (scanAndFix unreadable_root_env (one_project container_only_manifest)) = Some (IOError ''/srv'')
   \<and> fst (single_run unreadable_root_env (one_project container_only_manifest)) = 0
   \<and> logs (snd (single_run unreadable_root_env (one_project container_only_manifest)))
        = [''scan start'', ''scan error'', ''single run finished'']"
  by code_simp

section \<open>Proxy configuration: rollback\<close>

lemma backup_path_neq_conf: "backup_path ne \<noteq> conf ne"
  by (simp add: backup_path_def)

text \<open>
  Claim C6, as the code has it. If the live configuration file existed before the call,
  its backup copy, the write of the new content and the restoring copy succeed, and the
  configuration test fails, then the handler answers with phase \<^verbatim>\<open>test\<close> and the
  formatted error of the tool, the live file holds its content of before the call again,
  the backup file is gone, and no other file has changed.
\<close>

theorem nginx_save_rolls_back_on_failed_test:
  "\<lbrakk>fs (conf ne) = Some old; \<not> copy_fails ne; \<not> write_fails ne; \<not> restore_fails ne;
    test_nginx ne = Some x\<rbrakk>
   \<Longrightarrow> nginx_save ne (Some content) fs = (Failed ''test'' (formatExecError x), fs(backup_path ne := None))
       \<and> snd (nginx_save ne (Some content) fs) (conf ne) = Some old
       \<and> snd (nginx_save ne (Some content) fs) (backup_path ne) = None"
  using backup_path_neq_conf [of ne]
  by (auto simp: nginx_save_def restore_and_cleanup_def Let_def fun_eq_iff)

text \<open>The theorem at a live file \<^verbatim>\<open>server { }\<close> and a rejected new content.\<close>

theorem nginx_save_rolls_back_on_failed_test_witness:
  "nginx_save failing_test_env (Some ''server {'') [''/srv/core/default.conf'' \<mapsto> ''server { }'']
     = (Failed ''test'' \<lparr>r_error = ''Command failed: nginx -t'', r_stdout = [], r_stderr = ''unexpected }''\<rparr>,
        [''/srv/core/default.conf'' \<mapsto> ''server { }''](backup_path failing_test_env := None))
   \<and> snd (nginx_save failing_test_env (Some ''server {'') [''/srv/core/default.conf'' \<mapsto> ''server { }''])
        ''/srv/core/default.conf'' = Some ''server { }''"
proof -
  have a: "[''/srv/core/default.conf'' \<mapsto> ''server { }''] (conf failing_test_env) = Some ''server { }''"
    by (simp add: failing_test_env_def)
  have cf: "conf failing_test_env = ''/srv/core/default.conf''"
    by (simp add: failing_test_env_def)
  have b: "\<not> copy_fails failing_test_env" "\<not> write_fails failing_test_env" "\<not> restore_fails failing_test_env"
    by (simp_all add: failing_test_env_def)
  have c: "test_nginx failing_test_env = Some \<lparr>message = ''Command failed: nginx -t'', stdout = [], stderr = ''unexpected }''\<rparr>"
    by (simp add: failing_test_env_def)
  show ?thesis
    using nginx_save_rolls_back_on_failed_test
      [where fs = "[''/srv/core/default.conf'' \<mapsto> ''server { }'']" and ne = failing_test_env
         and content = "''server {''", OF a b c]
      backup_path_neq_conf [of failing_test_env] cf
    by (auto simp: formatExecError_def)
qed

text \<open>
  Claim C6 as the specification states it fails when there is no live file before the
  call: no backup is taken (line 1045), nothing is restored after the failed test, and
  the file that did not exist now holds the rejected content.
\<close>

theorem nginx_save_keeps_rejected_config_without_backup:
  "fst (nginx_save failing_test_env (Some ''server {'') Map.empty)
     = Failed ''test'' \<lparr>r_error = ''Command failed: nginx -t'', r_stdout = [], r_stderr = ''unexpected }''\<rparr>
   \<and> Map.empty ''/srv/core/default.conf'' = (None :: string option)
   \<and> snd (nginx_save failing_test_env (Some ''server {'') Map.empty) ''/srv/core/default.conf'' = Some ''server {''"
  by (simp add: nginx_save_def restore_and_cleanup_def failing_test_env_def formatExecError_def backup_path_def)

section \<open>The active-terminal counter\<close>

lemma decrement_nonneg: "0 \<le> count_or_0 (decrement st)"
  by (simp add: decrement_def count_or_0_def)

lemma count_set_conn [simp]: "count_or_0 (set_conn i c st) = count_or_0 st"
  by (simp add: set_conn_def count_or_0_def)

lemma onCloseCleanup_nonneg: "0 \<le> count_or_0 st \<Longrightarrow> 0 \<le> count_or_0 (onCloseCleanup i st)"
  by (simp add: onCloseCleanup_def decrement_nonneg)

lemma step_nonneg: "0 \<le> count_or_0 st \<Longrightarrow> 0 \<le> count_or_0 (step ev st)"
proof (cases ev)
  case Connect_rejected
  then show ?thesis by (simp add: decrement_nonneg)
next
  case (Connect k)
  assume "0 \<le> count_or_0 st"
  then show ?thesis using Connect by (simp add: increment_def count_or_0_def)
next
  case (Wait_over i found)
  assume "0 \<le> count_or_0 st"
  then show ?thesis using Wait_over
    by (simp add: wait_over_def Let_def decrement_nonneg split: stage.splits)
next
  case (Term_exit i)
  assume "0 \<le> count_or_0 st"
  then show ?thesis using Term_exit
    by (simp add: term_exit_def Let_def onCloseCleanup_nonneg)
next
  case (Respawn i)
  assume "0 \<le> count_or_0 st"
  then show ?thesis using Respawn by (simp add: respawn_def Let_def)
next
  case (Ws_close i)
  assume "0 \<le> count_or_0 st"
  then show ?thesis using Ws_close
    by (simp add: ws_close_def Let_def onCloseCleanup_nonneg split: stage.splits)
qed

text \<open>The counter is never negative.\<close>

lemma counter_never_negative: "0 \<le> count_or_0 (run_events evs term_init)"
proof -
  have "0 \<le> count_or_0 st \<Longrightarrow> 0 \<le> count_or_0 (fold step evs st)" for st
    by (induction evs arbitrary: st) (simp_all add: step_nonneg)
  then show ?thesis by (simp add: run_events_def term_init_def count_or_0_def)
qed

text \<open>A second call of \<^verbatim>\<open>onCloseCleanup\<close> finds the once-flag set and changes nothing.\<close>

lemma onCloseCleanup_once:
  "i < length (conns st) \<Longrightarrow> onCloseCleanup i (onCloseCleanup i st) = onCloseCleanup i st"
  by (simp add: onCloseCleanup_def decrement_def set_conn_def)

text \<open>
  Claim C8, at an \<^verbatim>\<open>inspect\<close> connection whose socket closes while the handler waits for
  the history (the \<^verbatim>\<open>await\<close> of line 1904, up to 20 seconds). No \<^verbatim>\<open>close\<close> handler is
  registered yet, so the close decrements nothing. When the wait is over the follower is
  spawned and the \<^verbatim>\<open>close\<close> handler registered on a socket that has closed already (line
  2053); when the follower exits, its exit handler does not call \<^verbatim>\<open>onCloseCleanup\<close> and
  spawns no other, the socket being closed. Now every socket is closed and no terminal is
  running, and the counter is 1, where the claim asks for zero when no sessions exist.
  No later callback of the connection changes that.
\<close>

theorem inspect_closed_while_waiting_leaks_counter:
  "run_events [Connect Inspect, Ws_close 0, Wait_over 0 True, Term_exit 0] term_init
     = \<lparr>activeTerminalCount = Some 1,
        conns = [\<lparr>socket_open = False, stage = Session Inspect, sessionClosed = False,
                  term_running = False\<rparr>]\<rparr>
   \<and> no_sessions (run_events [Connect Inspect, Ws_close 0, Wait_over 0 True, Term_exit 0] term_init)
   \<and> count_or_0 (run_events [Connect Inspect, Ws_close 0, Wait_over 0 True, Term_exit 0] term_init) = 1
   \<and> count_or_0 (run_events [Connect Inspect, Ws_close 0, Wait_over 0 True, Term_exit 0,
                              Respawn 0, Ws_close 0, Term_exit 0] term_init) = 1"
  by code_simp

section \<open>The tick on explicit workspaces\<close>

lemma writeCompose_skips_identical:
  "files w filePath = Some (yaml_stringify e m) \<Longrightarrow> writeCompose e filePath m w = Inr (w, False)"
  by (simp add: writeCompose_def)

text \<open>
  Claim C2, at a project whose manifest has one service and one top-level network that
  the service does not use. By \<open>writeCompose_skips_identical\<close> the writer does skip a file
  whose content it would write again. But the first tick prunes the unused network,
  deletes the block it left empty (line 447) and writes the file; the second tick, with no
  edit in between, finds no block, inserts the default network (line 419) and writes the
  file again, where the claim asks for no write on the second run.
\<close>

theorem second_tick_rewrites_compose_file:
  "files (snd (scanAndFix one_project_env (one_project unused_network_manifest))) ''/srv/apps/a/docker-compose.yml''
     = Some (Yaml (unused_network_manifest\<lparr>top_networks := None\<rparr>))
   \<and> files (snd (scanAndFix one_project_env (snd (scanAndFix one_project_env (one_project unused_network_manifest)))))
        ''/srv/apps/a/docker-compose.yml''
     = Some (Yaml (unused_network_manifest\<lparr>top_networks := Some [(''neuxbane-core-net'', TopExternal None)]\<rparr>))"
  by code_simp

text \<open>
  Claim C4, at a project whose service is attached to the default network by the bare
  string \<^verbatim>\<open>172.28.0.3\<close>. The census throws the ReferenceError of the unbound \<^verbatim>\<open>isIpv4\<close>
  (line 268); the catch of line 281 logs a failed parse and leaves the project out. After
  the tick the manifest still holds the bare string, and the mapper has no project, where
  the claim asks for the structured form and a processed project.
\<close>

theorem bare_ip_project_is_excluded:
  "fst (census_services (services bare_ip_manifest) empty_census) = Some (ReferenceError ''isIpv4'')
   \<and> files (snd (scanAndFix one_project_env (one_project bare_ip_manifest))) ''/srv/apps/a/docker-compose.yml''
       = Some (Yaml bare_ip_manifest)
   \<and> files (snd (scanAndFix one_project_env (one_project bare_ip_manifest))) ''/srv/mapper.json''
       = Some (Json [])
   \<and> logs (snd (scanAndFix one_project_env (one_project bare_ip_manifest)))
       = [''scan start'', ''failed parse /srv/apps/a/docker-compose.yml'', ''wrote mapper.json'', ''scan done'']"
  by code_simp

text \<open>
  Claim C1, at a project with two services that expose container port 8080 without a host
  port (\<^verbatim>\<open>"8080"\<close>) and one service that maps host port 8080 (\<^verbatim>\<open>"8080:80"\<close>). The census
  counts the two container-only entries as host port 8080 (line 255), so the only mapping
  that carries host port 8080 is moved to 10000 and none keeps 8080, where the claim asks
  that all but one mapping be replaced.
\<close>

theorem container_only_entries_force_reassignment:
  "map census_host [PStr ''8080'', PStr ''8080'', PStr ''8080:80''] = [Some (Fin 8080), Some (Fin 8080), Some (Fin 8080)]
   \<and> files (snd (scanAndFix one_project_env (one_project container_only_manifest))) ''/srv/apps/a/docker-compose.yml''
     = Some (Yaml (container_only_manifest
         \<lparr>services := [(''db1'', service_with_ports [''8080'']),
                       (''db2'', service_with_ports [''8080'']),
                       (''web'', service_with_ports [''10000:80''])]\<rparr>))"
  by code_simp

text \<open>
  Claim C3, at a project whose one service has the long-syntax port mapping
  \<^verbatim>\<open>{target: 80, published: 8080}\<close>. The census prints the entry as \<^verbatim>\<open>[object Object]\<close>
  and reads no host port from it (lines 254-256): after pass one no host port is counted
  at all. Pass two writes the entry back as the string it prints as (line 343), so the
  manifest of the tick maps the text \<^verbatim>\<open>[object Object]\<close> where it mapped host port 8080, the
  only host port of the workspace; the claim asks that only entries of census multiplicity
  above one be rewritten. The sanitizer of \<^verbatim>\<open>writeCompose\<close> (lines 139-148) would have
  printed the same entry as \<^verbatim>\<open>8080:80\<close>.
\<close>

theorem long_syntax_port_is_overwritten:
  "usedHostSet (tick_census one_project_env (one_project long_syntax_manifest)) = []
   \<and> usedHostCounts (tick_census one_project_env (one_project long_syntax_manifest)) (Fin 8080) = 0
   \<and> census_host (PObj [(''target'', SNum 80), (''published'', SNum 8080)]) = None
   \<and> files (snd (scanAndFix one_project_env (one_project long_syntax_manifest))) ''/srv/apps/a/docker-compose.yml''
       = Some (Yaml (long_syntax_manifest\<lparr>services := [(''web'', service_with_ports [''[object Object]''])]\<rparr>))
   \<and> sanitize_port (PObj [(''target'', SNum 80), (''published'', SNum 8080)]) = Some ''8080:80''"
  by code_simp

text \<open>
  \<^verbatim>\<open>parseInt\<close> after a no-break space, and on numerals that no double holds: the value
  is the nearest double, in a tie the one with the even significand.
\<close>

lemma parseInt10_is_a_double:
  "parseInt10 (CHR 0xA0 # ''8080'') = Some (Fin 8080)
   \<and> parseInt10 ''9007199254740993'' = Some (Fin 9007199254740992)
   \<and> parseInt10 ''9007199254740995'' = Some (Fin 9007199254740996)"
  by code_simp

section \<open>Splitting and joining strings\<close>

lemma split_on_not_Nil [simp]: "split_on c s \<noteq> []"
  by (induction s) (auto split: list.splits)

lemma split_on_no_sep: "p \<in> set (split_on c s) \<Longrightarrow> c \<notin> set p"
proof (induction s arbitrary: p)
  case Nil
  then show ?case by simp
next
  case (Cons x xs)
  show ?case
  proof (cases "x = c")
    case True
    then show ?thesis using Cons by auto
  next
    case False
    obtain q qs where q: "split_on c xs = q # qs" by (cases "split_on c xs") auto
    then have "p = x # q \<or> p \<in> set qs" using Cons.prems False by auto
    then show ?thesis using Cons.IH q False by auto
  qed
qed

lemma split_on_no_sep_id: "c \<notin> set s \<Longrightarrow> split_on c s = [s]"
  by (induction s) auto

lemma split_on_append_sep:
  "c \<notin> set p \<Longrightarrow> split_on c (p @ c # s) = p # split_on c s"
  by (induction p) auto

lemma split_on_join:
  "ps \<noteq> [] \<Longrightarrow> \<forall>p \<in> set ps. c \<notin> set p \<Longrightarrow> split_on c (join_with c ps) = ps"
proof (induction c ps rule: join_with.induct)
  case (1 c)
  then show ?case by simp
next
  case (2 c p)
  then show ?case by (simp add: split_on_no_sep_id)
next
  case (3 c p q ps)
  then show ?case by (simp add: split_on_append_sep)
qed

section \<open>Compose commands and the workspace root\<close>

lemma foldl_norm_step_clean:
  "\<forall>s \<in> set segs. clean_seg s \<Longrightarrow> foldl norm_step acc segs = acc @ segs"
  by (induction segs arbitrary: acc) (auto simp: norm_step_def clean_seg_def)

lemma foldl_norm_step_keeps_clean:
  "\<forall>s \<in> set acc. clean_seg s \<Longrightarrow> \<forall>s \<in> set segs. CHR ''/'' \<notin> set s
     \<Longrightarrow> \<forall>s \<in> set (foldl norm_step acc segs). clean_seg s"
proof (induction segs arbitrary: acc)
  case Nil
  then show ?case by simp
next
  case (Cons seg segs)
  have "\<forall>s \<in> set (norm_step acc seg). clean_seg s"
    using Cons.prems by (auto simp: norm_step_def clean_seg_def dest: in_set_butlastD)
  then show ?case using Cons by simp
qed

lemma norm_segs_clean: "\<forall>s \<in> set (norm_segs p). clean_seg s"
  unfolding norm_segs_def
  by (rule foldl_norm_step_keeps_clean) (auto dest: split_on_no_sep)

lemma norm_segs_render:
  assumes "\<forall>s \<in> set segs. clean_seg s"
  shows "norm_segs (render segs) = segs"
proof (cases segs)
  case Nil
  then show ?thesis by (simp add: norm_segs_def render_def norm_step_def)
next
  case (Cons a as)
  have "split_on CHR ''/'' (join_with CHR ''/'' segs) = segs"
    using assms Cons by (intro split_on_join) (auto simp: clean_seg_def)
  then have "split_on CHR ''/'' (render segs) = [] # segs"
    by (simp add: render_def)
  then show ?thesis
    using foldl_norm_step_clean [OF assms, of "[]"] by (simp add: norm_segs_def norm_step_def)
qed

lemma norm_segs_path_resolve: "norm_segs (path_resolve root p) = resolve_segs root p"
  unfolding path_resolve_def resolve_segs_def
  by (rule norm_segs_render) (rule norm_segs_clean)

lemma common_prefix_len_le: "common_prefix_len xs ys \<le> length xs"
  by (induction xs ys rule: common_prefix_len.induct) auto

lemma common_prefix_len_full: "common_prefix_len xs ys = length xs \<Longrightarrow> prefix xs ys"
proof (induction xs ys rule: common_prefix_len.induct)
  case (1 x xs y ys)
  then show ?case by (auto split: if_splits)
qed simp_all

lemma join_with_dotdot: "take 2 (join_with c (''..'' # rest)) = ''..''"
  by (cases rest) auto

lemma relative_escape:
  assumes "\<not> prefix r t"
  shows "take 2 (join_with c (relative_segs r t)) = ''..''"
proof -
  have "common_prefix_len r t \<noteq> length r" using assms common_prefix_len_full by blast
  then have "common_prefix_len r t < length r" using common_prefix_len_le [of r t] by simp
  then obtain n where "length r - common_prefix_len r t = Suc n"
    by (metis Suc_diff_Suc)
  then show ?thesis
    by (simp add: relative_segs_def Let_def join_with_dotdot del: join_with.simps)
qed

lemma sanitizePath_escape:
  "\<not> inside_root root (path_resolve root p) \<Longrightarrow> sanitizePath root p = None"
  using relative_escape [of "norm_segs root" "norm_segs (path_resolve root p)" "CHR ''/''"]
  by (simp add: sanitizePath_def inside_root_def path_relative_def Let_def)

lemma sanitizePath_Some:
  "sanitizePath root p = Some q \<Longrightarrow> q = path_resolve root p \<and> inside_root root q"
  using sanitizePath_escape [of root p]
  by (auto simp: sanitizePath_def Let_def split: if_splits)

lemma target_file_docker: "target_file ([''compose'', ''-f'', q] @ args) = Some q"
  by simp

lemma target_file_legacy: "target_file ([''-f'', q] @ args) = Some q"
  by simp

lemma runCompose_commands:
  "(cmd, as) \<in> set (snd (runCompose ce input args))
     \<Longrightarrow> \<exists>q. sanitizePath (workspace_root ce) input = Some q \<and> target_file as = Some q"
  by (auto simp: runCompose_def Let_def split: option.splits if_splits exec_outcome.splits)

text \<open>
  What \<^verbatim>\<open>sanitizePath\<close> and \<^verbatim>\<open>runCompose\<close> do for every input path: when the path
  resolved against the workspace root is not inside the root (the root's segments do not
  begin its own, so its relative form starts with \<^verbatim>\<open>..\<close>), \<^verbatim>\<open>sanitizePath\<close> returns
  null; whenever \<^verbatim>\<open>sanitizePath\<close> returns null, \<^verbatim>\<open>runCompose\<close> rejects with
  \<^verbatim>\<open>Invalid file path\<close> and runs no command; and every command that \<^verbatim>\<open>runCompose\<close> runs
  is run against a file inside the workspace root. The paths are compared as written.
\<close>

lemma runCompose_commands_confined:
  "(\<not> inside_root root (path_resolve root p) \<longrightarrow> sanitizePath root p = None)
   \<and> (sanitizePath (workspace_root ce) input = None
        \<longrightarrow> runCompose ce input args = (Inl ''Invalid file path'', []))
   \<and> (\<forall>(cmd, as) \<in> set (snd (runCompose ce input args)).
        \<exists>q. target_file as = Some q \<and> inside_root (workspace_root ce) q)"
proof (intro conjI)
  show "\<not> inside_root root (path_resolve root p) \<longrightarrow> sanitizePath root p = None"
    using sanitizePath_escape by blast
  show "sanitizePath (workspace_root ce) input = None
          \<longrightarrow> runCompose ce input args = (Inl ''Invalid file path'', [])"
    by (simp add: runCompose_def)
  show "\<forall>(cmd, as) \<in> set (snd (runCompose ce input args)).
          \<exists>q. target_file as = Some q \<and> inside_root (workspace_root ce) q"
    using runCompose_commands [of _ _ ce input args] sanitizePath_Some by blast
qed

text \<open>
  Claim C10, at a request to \<^verbatim>\<open>/ws/attach\<close> with the action \<^verbatim>\<open>stop\<close>, the service
  \<^verbatim>\<open>web\<close> and the file \<^verbatim>\<open>/etc/evil/docker-compose.yml\<close>, which exists, in the workspace
  \<^verbatim>\<open>/srv\<close>. The path is outside the root, \<^verbatim>\<open>sanitizePath\<close> returns null for it and
  \<^verbatim>\<open>runCompose\<close> rejects it, as the claim says. But the handler never calls
  \<^verbatim>\<open>sanitizePath\<close>: it spawns a shell in \<^verbatim>\<open>/etc/evil\<close> whose command line is
  \<^verbatim>\<open>docker compose -f\<close>, the quoted path, \<^verbatim>\<open>stop\<close> and the quoted service, with the same
  for \<^verbatim>\<open>docker-compose\<close> as the fallback: a compose command against a file outside the
  workspace root, where the claim concludes that none ever runs.
\<close>

theorem attach_stop_runs_compose_outside_root:
  "attach outside_env ''/etc/evil/docker-compose.yml'' ''web'' ''stop''
     = Attach_spawned ''bash''
         [''-lc'',
          ''docker compose -f '' @ CHR 0x22 # ''/etc/evil/docker-compose.yml'' @ CHR 0x22 # '' stop ''
            @ CHR 0x22 # ''web'' @ CHR 0x22 # '' || docker-compose -f ''
            @ CHR 0x22 # ''/etc/evil/docker-compose.yml'' @ CHR 0x22 # '' stop '' @ CHR 0x22 # ''web'' @ [CHR 0x22]]
         ''/etc/evil''
   \<and> \<not> inside_root ''/srv'' ''/etc/evil/docker-compose.yml''
   \<and> sanitizePath ''/srv'' ''/etc/evil/docker-compose.yml'' = None
   \<and> runCompose srv_env ''/etc/evil/docker-compose.yml'' [''stop'', ''web''] = (Inl ''Invalid file path'', [])"
  by code_simp

end
